theory Spec2Isabelle
  imports Main
begin

section \<open>JavaScript values seen by the relay\<close>

text \<open>
  A decoded payload is whatever \<^verbatim>\<open>JSON.parse\<close> or the protobuf \<^verbatim>\<open>toObject\<close> call returns:
  a tree of null, booleans, numbers, strings, arrays and plain objects. An object is kept
  as the list of its own properties in insertion order; a property read takes the first
  binding of the name. The relay never computes with a number, it only forwards it or
  prints it in a diagnostic, so numbers are integers here.
\<close>

datatype json =
    JNull
  | JBool bool
  | JNum int
  | JStr string
  | JArr "json list"
  | JObj "(string \<times> json) list"

text \<open>
  An uncaught-so-far exception. Every exception the message pipeline can raise by itself
  is a \<^verbatim>\<open>TypeError\<close>; the text is the engine's message (its exact wording belongs to the
  engine, not to the relay).
\<close>

datatype js_error = TypeError string

text \<open>\<^verbatim>\<open>'k' in obj\<close> for the property names the relay probes (\<^verbatim>\<open>vin\<close>, \<^verbatim>\<open>data\<close>,
  \<^verbatim>\<open>status\<close>, \<^verbatim>\<open>errors\<close>, \<^verbatim>\<open>alerts\<close>): none of them is inherited from a prototype, so
  the test is on the own properties; an array has none of them. The operand is always an
  object or an array where the source applies \<^verbatim>\<open>in\<close>.\<close>

fun js_in :: "string \<Rightarrow> json \<Rightarrow> bool" where
  "js_in k (JObj kvs) = (map_of kvs k \<noteq> None)"
| "js_in k v = False"

text \<open>\<^verbatim>\<open>obj.k\<close> for the same names, and for \<^verbatim>\<open>code\<close> and \<^verbatim>\<open>message\<close>, on a value that
  is not null: \<open>None\<close> is \<^verbatim>\<open>undefined\<close>.\<close>

fun get_prop :: "json \<Rightarrow> string \<Rightarrow> json option" where
  "get_prop (JObj kvs) k = map_of kvs k"
| "get_prop v k = None"

text \<open>Decimal rendering of a number in a template literal.\<close>

definition digit_char :: "nat \<Rightarrow> char" where
  "digit_char d = ''0123456789'' ! d"

fun string_of_nat :: "nat \<Rightarrow> string" where
  "string_of_nat n =
     (if 10 \<le> n then string_of_nat (n div 10) @ [digit_char (n mod 10)] else [digit_char n])"

definition string_of_int :: "int \<Rightarrow> string" where
  "string_of_int i = (if 0 \<le> i then string_of_nat (nat i) else CHR ''-'' # string_of_nat (nat (- i)))"

text \<open>
  \<^verbatim>\<open>`${v}`\<close>: the string conversion of a template literal. An array joins the conversions
  of its elements with commas, null elements giving the empty string. A plain object
  gives \<^verbatim>\<open>[object Object]\<close> through the inherited \<^verbatim>\<open>toString\<close>; when the payload itself
  has a property named \<^verbatim>\<open>toString\<close> the inherited method is shadowed by a value that
  cannot be called, \<^verbatim>\<open>valueOf\<close> yields no primitive, and the conversion throws.
\<close>

fun to_string :: "json \<Rightarrow> js_error + string"
  and join_elems :: "json list \<Rightarrow> js_error + string" where
  "to_string JNull = Inr ''null''"
| "to_string (JBool b) = Inr (if b then ''true'' else ''false'')"
| "to_string (JNum n) = Inr (string_of_int n)"
| "to_string (JStr s) = Inr s"
| "to_string (JArr xs) = join_elems xs"
| "to_string (JObj kvs) =
     (if map_of kvs ''toString'' \<noteq> None
      then Inl (TypeError ''Cannot convert object to primitive value'')
      else Inr ''[object Object]'')"
| "join_elems [] = Inr ''''"
| "join_elems (x # xs) =
     (case (if x = JNull then Inr '''' else to_string x) of
        Inl e \<Rightarrow> Inl e
      | Inr s \<Rightarrow>
          (if xs = [] then Inr s
           else (case join_elems xs of Inl e \<Rightarrow> Inl e | Inr r \<Rightarrow> Inr (s @ '','' @ r))))"

text \<open>The same conversion for a value that may be \<^verbatim>\<open>undefined\<close>.\<close>

fun to_string_opt :: "json option \<Rightarrow> js_error + string" where
  "to_string_opt None = Inr ''undefined''"
| "to_string_opt (Some v) = to_string v"

text \<open>A property name as the engine quotes it in the message of a \<^verbatim>\<open>TypeError\<close>.\<close>

definition quoted :: "string \<Rightarrow> string" where
  "quoted name = [CHR 0x27] @ name @ [CHR 0x27]"

text \<open>\<^verbatim>\<open>v.length\<close> for a property value \<open>v\<close> of the payload: reading a property of null
  throws; a number or a boolean has no such property; a string and an array have their
  length (a string's being counted in the characters of the model, which only shows in
  the text of a diagnostic); a plain object has it only as an own property.\<close>

fun js_length :: "json \<Rightarrow> js_error + json option" where
  "js_length JNull = Inl (TypeError (''Cannot read properties of null (reading '' @ quoted ''length'' @ '')''))"
| "js_length (JBool b) = Inr None"
| "js_length (JNum n) = Inr None"
| "js_length (JStr s) = Inr (Some (JNum (int (length s))))"
| "js_length (JArr xs) = Inr (Some (JNum (int (length xs))))"
| "js_length (JObj kvs) = Inr (map_of kvs ''length'')"

text \<open>\<^verbatim>\<open>Array.isArray(v)\<close>.\<close>

fun isArray :: "json \<Rightarrow> bool" where
  "isArray (JArr xs) = True"
| "isArray v = False"

text \<open>Truthiness of a value (\<^verbatim>\<open>!v\<close> is its negation) and \<^verbatim>\<open>typeof v === 'object'\<close>.\<close>

fun truthy :: "json \<Rightarrow> bool" where
  "truthy JNull = False"
| "truthy (JBool b) = b"
| "truthy (JNum n) = (n \<noteq> 0)"
| "truthy (JStr s) = (s \<noteq> [])"
| "truthy (JArr xs) = True"
| "truthy (JObj kvs) = True"

fun typeof_object :: "json \<Rightarrow> bool" where
  "typeof_object JNull = True"
| "typeof_object (JArr xs) = True"
| "typeof_object (JObj kvs) = True"
| "typeof_object v = False"

text \<open>Sequencing of two computations the first of which may throw.\<close>

fun try_bind :: "'e + 'a \<Rightarrow> ('a \<Rightarrow> 'e + 'b) \<Rightarrow> 'e + 'b" where
  "try_bind (Inl e) f = Inl e"
| "try_bind (Inr x) f = f x"

section \<open>Sockets, pools and the trace of effects\<close>

text \<open>A socket object is known by its identity. The WebSocket that the \<^verbatim>\<open>ws\<close> library
  builds on an upgraded transport is identified with that transport.\<close>

type_synonym sock = nat

datatype readyState = CONNECTING | OPEN | CLOSING | CLOSED

datatype level = INFO | WARN | ERROR | DEBUG

text \<open>
  What the relay does to the outside, in the order it does it: a call of the \<^verbatim>\<open>Logger\<close>,
  a call of \<^verbatim>\<open>JSON.stringify\<close>, a call of \<^verbatim>\<open>send\<close>, of \<^verbatim>\<open>ping\<close> and of \<^verbatim>\<open>terminate\<close> on a
  WebSocket, the two operations of the relay on a raw transport whose upgrade it refuses,
  and the refusal by the \<^verbatim>\<open>ws\<close> library itself (its \<^verbatim>\<open>abortHandshake\<close>: the transport is
  ended with an HTTP response of the given status and destroyed).
\<close>

datatype effect =
    Log level string
  | Stringify json
  | Send sock string
  | Ping sock
  | Terminate sock
  | SocketWrite sock string
  | SocketDestroy sock
  | AbortHandshake sock nat

text \<open>
  The library functions and the process configuration the relay is given.
  \<^verbatim>\<open>JSON.parse\<close> and the protobuf decoding of a buffer (\<^verbatim>\<open>PayloadType.decode\<close> followed by
  \<^verbatim>\<open>toObject\<close>) either return a value or throw an error with a message; \<^verbatim>\<open>jwt.verify\<close>
  likewise. \<^verbatim>\<open>new URL(url, base)\<close> returns the path name and the \<^verbatim>\<open>token\<close> query
  parameter, or throws. The schema the decoder works from is loaded from a file that is
  not among the sources, so the decoder is any function here; what the options of the
  \<^verbatim>\<open>toObject\<close> call make of its result is said where a theorem needs it.
\<close>

record parsed_url =
  pathname :: string
  token_param :: "string option"

record js_env =
  JSON_parse :: "string \<Rightarrow> string + json"
  JSON_stringify :: "json \<Rightarrow> string"
  Payload_decode :: "nat list \<Rightarrow> string + json"
  jwt_verify :: "string \<Rightarrow> string \<Rightarrow> string + json"
  URL_new :: "string \<Rightarrow> string \<Rightarrow> string + parsed_url"
  JWT_SECRET :: string
  NODE_ENV :: "string option"

text \<open>The part of an \<^verbatim>\<open>IncomingMessage\<close> the relay reads, and what the \<^verbatim>\<open>ws\<close> library
  makes of the rest of it, which the relay never looks at: \<open>handshake\<close> is \<open>None\<close> for a
  request that \<^verbatim>\<open>wss.handleUpgrade\<close> accepts as a WebSocket handshake, and the HTTP status
  with which it aborts the handshake otherwise (a method other than \<^verbatim>\<open>GET\<close>, a missing or
  malformed \<^verbatim>\<open>Upgrade\<close>, \<^verbatim>\<open>Sec-WebSocket-Key\<close> or \<^verbatim>\<open>Sec-WebSocket-Version\<close> header).\<close>

record request =
  url :: "string option"
  host :: "string option"
  authorization :: "string option"
  remoteAddress :: string
  handshake :: "nat option"

text \<open>The payload of a \<^verbatim>\<open>message\<close> event (\<^verbatim>\<open>WebSocket.Data\<close>): a buffer, a string, or one of
  the other shapes (an \<^verbatim>\<open>ArrayBuffer\<close>, an array of buffers). The handler has a branch for
  each; the \<^verbatim>\<open>ws\<close> release the package depends on (8.13 or later) hands a frame over as a
  buffer, a text frame like a binary one, so the frames a producer can make the handler
  see are the buffers.\<close>

datatype wsdata = Buffer "nat list" | Text string | OtherData

text \<open>Which set of listeners a WebSocket carries: those of the \<^verbatim>\<open>connection\<close> handler of
  \<^verbatim>\<open>ClientServer\<close> (\<^verbatim>\<open>close\<close>, \<^verbatim>\<open>error\<close>, \<^verbatim>\<open>pong\<close>) or those of
  \<^verbatim>\<open>handleVehicleConnection\<close> (\<^verbatim>\<open>message\<close>, \<^verbatim>\<open>close\<close>, \<^verbatim>\<open>error\<close>).\<close>

datatype listeners = ClientListeners request | VehicleListeners

text \<open>
  The state of the process: the subscriber set \<^verbatim>\<open>ClientServer.clients\<close> (a \<^verbatim>\<open>Set\<close>: a list
  in insertion order), the registry \<^verbatim>\<open>TelemetryServer.vehicleConnections\<close> (a \<^verbatim>\<open>Map\<close>: an
  association list in insertion order), whether \<^verbatim>\<open>PayloadType\<close> has been set by the schema
  load, and for every socket its listeners, its \<^verbatim>\<open>readyState\<close>, and its \<^verbatim>\<open>isAlive\<close> and
  \<^verbatim>\<open>authData\<close> properties (\<open>None\<close> is \<^verbatim>\<open>undefined\<close>); and the trace of effects so far.
\<close>

record server =
  clients :: "sock list"
  vehicleConnections :: "(string \<times> sock) list"
  PayloadType :: bool
  listeners :: "sock \<Rightarrow> listeners option"
  readyState :: "sock \<Rightarrow> readyState"
  isAlive :: "sock \<Rightarrow> bool option"
  authData :: "sock \<Rightarrow> json option"
  trace :: "effect list"

definition emit :: "effect list \<Rightarrow> server \<Rightarrow> server" where
  "emit es st = st\<lparr>trace := trace st @ es\<rparr>"

definition logger :: "level \<Rightarrow> string \<Rightarrow> server \<Rightarrow> server" where
  "logger lvl msg st = emit [Log lvl msg] st"

text \<open>\<^verbatim>\<open>Set.add\<close> and \<^verbatim>\<open>Set.delete\<close>.\<close>

definition set_add :: "'a \<Rightarrow> 'a list \<Rightarrow> 'a list" where
  "set_add x xs = (if x \<in> set xs then xs else xs @ [x])"

definition set_delete :: "'a \<Rightarrow> 'a list \<Rightarrow> 'a list" where
  "set_delete x xs = filter (\<lambda>y. y \<noteq> x) xs"

text \<open>\<^verbatim>\<open>Map.has\<close>, \<^verbatim>\<open>Map.set\<close> and \<^verbatim>\<open>Map.delete\<close>.\<close>

definition map_has :: "('k \<times> 'v) list \<Rightarrow> 'k \<Rightarrow> bool" where
  "map_has m k = (map_of m k \<noteq> None)"

fun map_set :: "('k \<times> 'v) list \<Rightarrow> 'k \<Rightarrow> 'v \<Rightarrow> ('k \<times> 'v) list" where
  "map_set [] k v = [(k, v)]"
| "map_set ((k', v') # m) k v = (if k' = k then (k, v) # m else (k', v') # map_set m k v)"

definition map_delete :: "('k \<times> 'v) list \<Rightarrow> 'k \<Rightarrow> ('k \<times> 'v) list" where
  "map_delete m k = filter (\<lambda>kv. fst kv \<noteq> k) m"

text \<open>The library's side of an upgrade. \<^verbatim>\<open>wss.handleUpgrade\<close> either aborts the handshake,
  and then never calls the callback, or completes it: a new WebSocket object on the
  transport, open, with no listener and none of the relay's own properties, is handed to
  the callback. \<^verbatim>\<open>terminate\<close> destroys the transport: the socket is closing from then on,
  unless it was closed already.\<close>

definition ws_completeUpgrade :: "sock \<Rightarrow> server \<Rightarrow> server" where
  "ws_completeUpgrade ws st =
     st\<lparr>listeners := (listeners st)(ws := None),
        readyState := (readyState st)(ws := OPEN),
        isAlive := (isAlive st)(ws := None),
        authData := (authData st)(ws := None)\<rparr>"

definition ws_handleUpgrade ::
  "request \<Rightarrow> sock \<Rightarrow> (server \<Rightarrow> server) \<Rightarrow> server \<Rightarrow> server" where
  "ws_handleUpgrade request socket callback st =
     (case handshake request of
        Some status \<Rightarrow> emit [AbortHandshake socket status] st
      | None \<Rightarrow> callback (ws_completeUpgrade socket st))"

definition ws_terminate :: "sock \<Rightarrow> server \<Rightarrow> server" where
  "ws_terminate ws st =
     emit [Terminate ws]
       (if readyState st ws = CLOSED then st
        else st\<lparr>readyState := (readyState st)(ws := CLOSING)\<rparr>)"

definition CRLF :: string where
  "CRLF = [CHR 0x0D, CHR 0x0A]"

section \<open>ClientServer: the subscriber pool\<close>

text \<open>\<^verbatim>\<open>sendToClient\<close>.\<close>

definition sendToClient :: "js_env \<Rightarrow> sock \<Rightarrow> json \<Rightarrow> server \<Rightarrow> server" where
  "sendToClient env client data st =
     (if readyState st client = OPEN
      then emit [Stringify data, Send client (JSON_stringify env data)] st
      else st)"

text \<open>The loop of \<^verbatim>\<open>broadcastTelemetry\<close> over the set: a client whose \<^verbatim>\<open>readyState\<close> is
  \<^verbatim>\<open>OPEN\<close> is sent the string and counted, any other is passed over.\<close>

fun broadcast_loop ::
  "(sock \<Rightarrow> readyState) \<Rightarrow> string \<Rightarrow> sock list \<Rightarrow> nat \<Rightarrow> effect list \<times> nat" where
  "broadcast_loop rs messageJson [] clientCount = ([], clientCount)"
| "broadcast_loop rs messageJson (client # rest) clientCount =
     (if rs client = OPEN
      then (case broadcast_loop rs messageJson rest (clientCount + 1) of
              (es, n) \<Rightarrow> (Send client messageJson # es, n))
      else broadcast_loop rs messageJson rest clientCount)"

definition broadcastTelemetry :: "js_env \<Rightarrow> json \<Rightarrow> server \<Rightarrow> server" where
  "broadcastTelemetry env telemetryMessage st =
     (if length (clients st) = 0 then st
      else
        (let messageJson = JSON_stringify env telemetryMessage;
             (sent, clientCount) = broadcast_loop (readyState st) messageJson (clients st) 0
         in emit ([Stringify telemetryMessage] @ sent @
                  [Log DEBUG (''Broadcast telemetry to '' @ string_of_nat clientCount @ '' clients'')])
              st))"

text \<open>The \<^verbatim>\<open>connection\<close> handler set up by \<^verbatim>\<open>setupSocketHandlers\<close>; \<open>now\<close> is the reading
  of the clock for the welcome message. The listeners it registers keep the request.\<close>

definition welcome_message :: "string \<Rightarrow> json" where
  "welcome_message now =
     JObj [(''type'', JStr ''connection_status''), (''connected'', JBool True),
           (''timestamp'', JStr now), (''message'', JStr ''Connected to Tesla Telemetry Server'')]"

definition client_connection :: "js_env \<Rightarrow> sock \<Rightarrow> request \<Rightarrow> string \<Rightarrow> server \<Rightarrow> server" where
  "client_connection env socket request now st =
     (let st1 = st\<lparr>clients := set_add socket (clients st)\<rparr>;
          st2 = logger INFO (''Client connected: '' @ remoteAddress request @
                  '', total clients: '' @ string_of_nat (length (clients st1))) st1;
          st3 = sendToClient env socket (welcome_message now) st2
      in st3\<lparr>listeners := (listeners st3)(socket := Some (ClientListeners request))\<rparr>)"

definition client_close :: "sock \<Rightarrow> request \<Rightarrow> server \<Rightarrow> server" where
  "client_close socket request st =
     (let st1 = st\<lparr>clients := set_delete socket (clients st)\<rparr>
      in logger INFO (''Client disconnected: '' @ remoteAddress request @
           '', remaining clients: '' @ string_of_nat (length (clients st1))) st1)"

definition client_error :: "sock \<Rightarrow> string \<Rightarrow> server \<Rightarrow> server" where
  "client_error socket message st =
     (let st1 = logger ERROR (''Client socket error: '' @ message) st
      in st1\<lparr>clients := set_delete socket (clients st1)\<rparr>)"

definition client_pong :: "sock \<Rightarrow> server \<Rightarrow> server" where
  "client_pong socket st = st\<lparr>isAlive := (isAlive st)(socket := Some True)\<rparr>"

text \<open>The body of the timer set by \<^verbatim>\<open>startHeartbeat\<close>: one pass over the set, in which the
  client at hand may be deleted.\<close>

fun heartbeat_loop :: "sock list \<Rightarrow> server \<Rightarrow> server" where
  "heartbeat_loop [] st = st"
| "heartbeat_loop (client # rest) st =
     (if isAlive st client = Some False
      then (let st1 = ws_terminate client st
            in heartbeat_loop rest (st1\<lparr>clients := set_delete client (clients st1)\<rparr>))
      else (let st1 = st\<lparr>isAlive := (isAlive st)(client := Some False)\<rparr>
            in heartbeat_loop rest (emit [Ping client] st1)))"

definition heartbeat :: "server \<Rightarrow> server" where
  "heartbeat st = heartbeat_loop (clients st) st"

section \<open>AuthService: the token gate\<close>

definition base_url :: "request \<Rightarrow> string" where
  "base_url request =
     ''http://'' @ (case host request of
                      None \<Rightarrow> ''localhost''
                    | Some h \<Rightarrow> if h = [] then ''localhost'' else h)"

definition bearer_token :: "request \<Rightarrow> string option" where
  "bearer_token request =
     (case authorization request of
        None \<Rightarrow> None
      | Some authHeader \<Rightarrow>
          if authHeader \<noteq> [] \<and> take 7 authHeader = ''Bearer ''
          then Some (drop 7 authHeader) else None)"

definition extractToken :: "js_env \<Rightarrow> request \<Rightarrow> server \<Rightarrow> string option \<times> server" where
  "extractToken env request st =
     (case url request of
        None \<Rightarrow> (bearer_token request, st)
      | Some u \<Rightarrow>
          if u = [] then (bearer_token request, st)
          else (case URL_new env u (base_url request) of
                  Inl message \<Rightarrow> (None, logger ERROR (''Failed to extract token: '' @ message) st)
                | Inr parsed \<Rightarrow>
                    (case token_param parsed of
                       None \<Rightarrow> (bearer_token request, st)
                     | Some tokenParam \<Rightarrow>
                         if tokenParam \<noteq> [] then (Some tokenParam, st)
                         else (bearer_token request, st))))"

definition verifyToken :: "js_env \<Rightarrow> string \<Rightarrow> server \<Rightarrow> json option \<times> server" where
  "verifyToken env token st =
     (let secret = (if JWT_SECRET env \<noteq> [] then JWT_SECRET env
                    else if NODE_ENV env \<noteq> Some ''production'' then ''development-secret-key''
                    else [])
      in case (if secret = [] then Inl ''No JWT secret available for verification''
               else jwt_verify env token secret) of
           Inr decoded \<Rightarrow> (Some decoded, st)
         | Inl message \<Rightarrow>
             (None, if NODE_ENV env \<noteq> Some ''production''
                    then logger ERROR (''Token verification failed: '' @ message) st
                    else logger ERROR ''Token verification failed'' st))"

definition authenticateWebSocketRequest ::
  "js_env \<Rightarrow> request \<Rightarrow> server \<Rightarrow> json option \<times> server" where
  "authenticateWebSocketRequest env request st =
     (case extractToken env request st of
        (None, st1) \<Rightarrow>
          (None, logger WARN (''WebSocket connection attempt without token from '' @
                   remoteAddress request) st1)
      | (Some token, st1) \<Rightarrow>
          if token = []
          then (None, logger WARN (''WebSocket connection attempt without token from '' @
                        remoteAddress request) st1)
          else (case verifyToken env token st1 of
                  (None, st2) \<Rightarrow>
                    (None, logger WARN (''WebSocket connection attempt with invalid token from '' @
                             remoteAddress request) st2)
                | (Some decoded, st2) \<Rightarrow>
                    if \<not> truthy decoded
                    then (None, logger WARN
                            (''WebSocket connection attempt with invalid token from '' @
                             remoteAddress request) st2)
                    else (Some decoded, logger INFO (''WebSocket client authenticated: '' @
                            remoteAddress request) st2)))"

text \<open>\<^verbatim>\<open>ClientServer.handleUpgrade\<close>.\<close>

definition clientServer_handleUpgrade ::
  "js_env \<Rightarrow> request \<Rightarrow> sock \<Rightarrow> string \<Rightarrow> server \<Rightarrow> server" where
  "clientServer_handleUpgrade env request socket now st =
     (case authenticateWebSocketRequest env request st of
        (None, st1) \<Rightarrow>
          emit [Log WARN (''Client authentication failed, rejecting WebSocket connection from '' @
                  remoteAddress request),
                SocketWrite socket (''HTTP/1.1 401 Unauthorized'' @ CRLF @ CRLF),
                SocketDestroy socket] st1
      | (Some auth, st1) \<Rightarrow>
          ws_handleUpgrade request socket
            (\<lambda>st2. client_connection env socket request now
                     (st2\<lparr>authData := (authData st2)(socket := Some auth)\<rparr>))
            st1)"

section \<open>TelemetryServer: the producer side\<close>

text \<open>The decoding stage of \<^verbatim>\<open>handleVehicleMessage\<close>: \<open>None\<close> when the handler returns
  from it.\<close>

definition decode_frame :: "js_env \<Rightarrow> wsdata \<Rightarrow> server \<Rightarrow> json option \<times> server" where
  "decode_frame env data st =
     (case data of
        Buffer bytes \<Rightarrow>
          (case Payload_decode env bytes of
             Inr messageObject \<Rightarrow>
               (Some messageObject,
                logger DEBUG (''Received and decoded protobuf message from vehicle ('' @
                  string_of_nat (length bytes) @ '' bytes)'') st)
           | Inl message \<Rightarrow>
               (None, logger ERROR (''Failed to decode protobuf message: '' @ message) st))
      | Text s \<Rightarrow>
          (case JSON_parse env s of
             Inr messageObject \<Rightarrow>
               (Some messageObject,
                logger DEBUG ''Received text message (assumed JSON) from vehicle'' st)
           | Inl message \<Rightarrow>
               (None, logger ERROR (''Failed to parse text message: '' @ message) st))
      | OtherData \<Rightarrow>
          (None, logger WARN ''Received message of unknown type, ignoring.'' st))"

text \<open>The guard on the identity:
  \<^verbatim>\<open>!messageObject || typeof messageObject !== 'object' || !('vin' in messageObject) ||
  typeof messageObject.vin !== 'string'\<close>.\<close>

fun typeof_string :: "json option \<Rightarrow> bool" where
  "typeof_string (Some (JStr s)) = True"
| "typeof_string v = False"

definition without_valid_vin :: "json \<Rightarrow> bool" where
  "without_valid_vin messageObject =
     (\<not> truthy messageObject \<or> \<not> typeof_object messageObject \<or>
      \<not> js_in ''vin'' messageObject \<or> \<not> typeof_string (get_prop messageObject ''vin''))"

text \<open>\<^verbatim>\<open>messageObject.vin\<close> once the guard has passed.\<close>

definition vin_of :: "json \<Rightarrow> string" where
  "vin_of messageObject = (case get_prop messageObject ''vin'' of Some (JStr v) \<Rightarrow> v | _ \<Rightarrow> [])"

definition connectivity :: "string \<Rightarrow> string \<Rightarrow> string \<Rightarrow> json" where
  "connectivity vin status now =
     JObj [(''vin'', JStr vin), (''connectionId'', JStr []), (''status'', JStr status),
           (''timestamp'', JStr now)]"

text \<open>The chain of tests by which \<^verbatim>\<open>handleVehicleMessage\<close> types the payload.\<close>

datatype variant = DataMessage | ConnectivityMessage | ErrorMessage | AlertMessage | UnknownMessage

fun in_and_isArray :: "string \<Rightarrow> json \<Rightarrow> bool" where
  "in_and_isArray k messageObject =
     (js_in k messageObject \<and>
      (case get_prop messageObject k of Some v \<Rightarrow> isArray v | None \<Rightarrow> False))"

fun in_and_status :: "json \<Rightarrow> bool" where
  "in_and_status messageObject =
     (js_in ''status'' messageObject \<and>
      (get_prop messageObject ''status'' = Some (JStr ''CONNECTED'') \<or>
       get_prop messageObject ''status'' = Some (JStr ''DISCONNECTED'')))"

definition classify :: "json \<Rightarrow> variant" where
  "classify messageObject =
     (if in_and_isArray ''data'' messageObject then DataMessage
      else if in_and_status messageObject then ConnectivityMessage
      else if in_and_isArray ''errors'' messageObject then ErrorMessage
      else if in_and_isArray ''alerts'' messageObject then AlertMessage
      else UnknownMessage)"

text \<open>The type guards of \<^verbatim>\<open>types/telemetry.ts\<close>.\<close>

definition isTelemetryDataMessage :: "json \<Rightarrow> bool" where
  "isTelemetryDataMessage message = js_in ''data'' message"

definition isTelemetryConnectivityMessage :: "json \<Rightarrow> bool" where
  "isTelemetryConnectivityMessage message = js_in ''status'' message"

definition isTelemetryErrorMessage :: "json \<Rightarrow> bool" where
  "isTelemetryErrorMessage message = js_in ''errors'' message"

definition isTelemetryAlertMessage :: "json \<Rightarrow> bool" where
  "isTelemetryAlertMessage message = js_in ''alerts'' message"

text \<open>\<^verbatim>\<open>message.k.length\<close>, and the line logged for one element of \<^verbatim>\<open>message.errors\<close>.\<close>

definition prop_length :: "json \<Rightarrow> string \<Rightarrow> js_error + json option" where
  "prop_length message k =
     (case get_prop message k of
        None \<Rightarrow> Inl (TypeError (''Cannot read properties of undefined (reading '' @ quoted ''length'' @ '')''))
      | Some v \<Rightarrow> js_length v)"

definition error_line :: "json \<Rightarrow> js_error + string" where
  "error_line error =
     (if error = JNull then Inl (TypeError (''Cannot read properties of null (reading '' @ quoted ''code'' @ '')''))
      else try_bind (to_string_opt (get_prop error ''code'')) (\<lambda>code.
           try_bind (to_string_opt (get_prop error ''message'')) (\<lambda>message.
           Inr (''Vehicle Error: Code='' @ code @ '', Message='' @ message))))"

text \<open>\<^verbatim>\<open>message.errors.forEach\<close> on an array: the state reached, and the exception that
  stopped the loop if one did.\<close>

fun errors_forEach :: "json list \<Rightarrow> server \<Rightarrow> server \<times> js_error option" where
  "errors_forEach [] st = (st, None)"
| "errors_forEach (error # rest) st =
     (case error_line error of
        Inl e \<Rightarrow> (st, Some e)
      | Inr line \<Rightarrow> errors_forEach rest (logger WARN line st))"

text \<open>The \<^verbatim>\<open>try\<close> block of \<^verbatim>\<open>processMessage\<close>, with the state it reaches and the exception
  it leaves by, if any; then \<^verbatim>\<open>processMessage\<close> with its \<^verbatim>\<open>catch\<close>.\<close>

definition processMessage_try :: "js_env \<Rightarrow> json \<Rightarrow> server \<Rightarrow> server \<times> js_error option" where
  "processMessage_try env message st =
     (if isTelemetryDataMessage message then
        (case try_bind (to_string_opt (get_prop message ''vin'')) (\<lambda>vin.
              try_bind (try_bind (prop_length message ''data'') to_string_opt) (\<lambda>n.
              Inr (''Received data message from VIN='' @ vin @ '' with '' @ n @ '' data points''))) of
           Inl e \<Rightarrow> (st, Some e)
         | Inr line \<Rightarrow> (broadcastTelemetry env message (logger DEBUG line st), None))
      else if isTelemetryConnectivityMessage message then
        (case try_bind (to_string_opt (get_prop message ''vin'')) (\<lambda>vin.
              try_bind (to_string_opt (get_prop message ''status'')) (\<lambda>status.
              Inr (''Received connectivity message from VIN='' @ vin @ '': status='' @ status))) of
           Inl e \<Rightarrow> (st, Some e)
         | Inr line \<Rightarrow> (broadcastTelemetry env message (logger INFO line st), None))
      else if isTelemetryErrorMessage message then
        (case try_bind (to_string_opt (get_prop message ''vin'')) (\<lambda>vin.
              try_bind (try_bind (prop_length message ''errors'') to_string_opt) (\<lambda>n.
              Inr (''Received error message from VIN='' @ vin @ '' with '' @ n @ '' errors''))) of
           Inl e \<Rightarrow> (st, Some e)
         | Inr line \<Rightarrow>
             (let st1 = logger WARN line st
              in case get_prop message ''errors'' of
                   Some (JArr errors) \<Rightarrow>
                     (case errors_forEach errors st1 of
                        (st2, Some e) \<Rightarrow> (st2, Some e)
                      | (st2, None) \<Rightarrow> (broadcastTelemetry env message st2, None))
                 | _ \<Rightarrow> (st1, Some (TypeError ''message.errors.forEach is not a function''))))
      else if isTelemetryAlertMessage message then
        (case try_bind (to_string_opt (get_prop message ''vin'')) (\<lambda>vin.
              try_bind (try_bind (prop_length message ''alerts'') to_string_opt) (\<lambda>n.
              Inr (''Received alert message from VIN='' @ vin @ '' with '' @ n @ '' alerts''))) of
           Inl e \<Rightarrow> (st, Some e)
         | Inr line \<Rightarrow> (broadcastTelemetry env message (logger INFO line st), None))
      else
        (case (if typeof_object message \<and> js_in ''vin'' message
               then try_bind (to_string_opt (get_prop message ''vin'')) (\<lambda>vin.
                    Inr (''Received unknown message type '' @ ''from VIN='' @ vin))
               else Inr ''Received unknown message type '') of
           Inl e \<Rightarrow> (st, Some e)
         | Inr line \<Rightarrow> (broadcastTelemetry env message (logger WARN line st), None)))"

definition processMessage :: "js_env \<Rightarrow> json \<Rightarrow> server \<Rightarrow> server" where
  "processMessage env message st =
     (case processMessage_try env message st of
        (st1, None) \<Rightarrow> st1
      | (st1, Some (TypeError text)) \<Rightarrow> logger ERROR (''Error processing message: '' @ text) st1)"

text \<open>\<^verbatim>\<open>sendAcknowledgment\<close>; \<open>now\<close> is the reading of the clock for the acknowledgment.
  A property whose value is \<^verbatim>\<open>undefined\<close> is left out by \<^verbatim>\<open>JSON.stringify\<close>.\<close>

definition ack :: "json \<Rightarrow> string \<Rightarrow> json" where
  "ack message now =
     JObj ([(''type'', JStr ''ack'')] @
           (case get_prop message ''vin'' of Some v \<Rightarrow> [(''vin'', v)] | None \<Rightarrow> []) @
           [(''timestamp'', JStr now)])"

definition sendAcknowledgment :: "js_env \<Rightarrow> sock \<Rightarrow> json \<Rightarrow> string \<Rightarrow> server \<Rightarrow> server" where
  "sendAcknowledgment env socket message now st =
     (if \<not> isTelemetryDataMessage message then st
      else if readyState st socket = OPEN then
        (let st1 = emit [Stringify (ack message now),
                         Send socket (JSON_stringify env (ack message now))] st
         in case to_string_opt (get_prop message ''vin'') of
              Inr vin \<Rightarrow> logger DEBUG (''Sent acknowledgment to VIN='' @ vin) st1
            | Inl (TypeError text) \<Rightarrow> logger ERROR (''Error sending acknowledgment: '' @ text) st1)
      else st)"

text \<open>\<^verbatim>\<open>handleVehicleMessage\<close>; \<open>t_connect\<close> and \<open>t_ack\<close> are the readings of the clock for
  the synthesized connectivity message and for the acknowledgment. The block that maps
  the socket to the identity (\<^verbatim>\<open>if (!this.vehicleConnections.has(vin))\<close>) is \<open>identify\<close>.\<close>

definition identify :: "js_env \<Rightarrow> sock \<Rightarrow> string \<Rightarrow> string \<Rightarrow> server \<Rightarrow> server" where
  "identify env socket vin now st =
     (if \<not> map_has (vehicleConnections st) vin then
        (let st1 = st\<lparr>vehicleConnections := map_set (vehicleConnections st) vin socket\<rparr>;
             st2 = logger INFO (''Vehicle identified: VIN='' @ vin) st1
         in broadcastTelemetry env (connectivity vin ''CONNECTED'' now) st2)
      else st)"

definition handleVehicleMessage ::
  "js_env \<Rightarrow> sock \<Rightarrow> wsdata \<Rightarrow> string \<Rightarrow> string \<Rightarrow> server \<Rightarrow> server" where
  "handleVehicleMessage env socket data t_connect t_ack st =
     (if \<not> PayloadType st
      then logger ERROR ''Protobuf definitions not loaded, cannot process message.'' st
      else
        (case decode_frame env data st of
           (None, st1) \<Rightarrow> st1
         | (Some messageObject, st1) \<Rightarrow>
             if without_valid_vin messageObject
             then logger WARN ''Received message without valid VIN, ignoring'' st1
             else
               (let vin = vin_of messageObject;
                    st2 = identify env socket vin t_connect st1;
                    st3 = (if classify messageObject = UnknownMessage
                           then logger WARN (''Received unknown message type '' @
                                  (if typeof_object messageObject \<and> js_in ''vin'' messageObject
                                   then ''from VIN='' @ vin else [])) st2
                           else st2);
                    st4 = processMessage env messageObject st3
                in sendAcknowledgment env socket messageObject t_ack st4)))"

text \<open>The \<^verbatim>\<open>close\<close> listener of a producer socket: the scan of the registry stops at the
  first entry whose connection is the socket; the test \<^verbatim>\<open>if (disconnectedVin)\<close> is on
  the truthiness of the identity found.\<close>

fun find_vin :: "(string \<times> sock) list \<Rightarrow> sock \<Rightarrow> string option" where
  "find_vin [] socket = None"
| "find_vin ((vin, conn) # rest) socket = (if conn = socket then Some vin else find_vin rest socket)"

definition vehicle_close :: "js_env \<Rightarrow> sock \<Rightarrow> string \<Rightarrow> server \<Rightarrow> server" where
  "vehicle_close env socket now st =
     (case find_vin (vehicleConnections st) socket of
        None \<Rightarrow> logger INFO ''Unknown vehicle disconnected'' st
      | Some disconnectedVin \<Rightarrow>
          if disconnectedVin \<noteq> [] then
            (let st1 = st\<lparr>vehicleConnections := map_delete (vehicleConnections st) disconnectedVin\<rparr>;
                 st2 = logger INFO (''Vehicle '' @ disconnectedVin @ '' disconnected'') st1
             in broadcastTelemetry env (connectivity disconnectedVin ''DISCONNECTED'' now) st2)
          else logger INFO ''Unknown vehicle disconnected'' st)"

definition vehicle_error :: "string \<Rightarrow> server \<Rightarrow> server" where
  "vehicle_error message st = logger ERROR (''Vehicle socket error: '' @ message) st"

text \<open>\<^verbatim>\<open>handleVehicleConnection\<close> and \<^verbatim>\<open>TelemetryServer.handleUpgrade\<close>. The listener of the
  process is a plain HTTP server, so the transport has no peer certificate to check.\<close>

definition handleVehicleConnection :: "sock \<Rightarrow> request \<Rightarrow> server \<Rightarrow> server" where
  "handleVehicleConnection socket request st =
     (let st1 = logger INFO (''Vehicle connected from: '' @ remoteAddress request) st;
          st2 = logger DEBUG ''No client certificate validation (mTLS not enabled)'' st1
      in st2\<lparr>listeners := (listeners st2)(socket := Some VehicleListeners)\<rparr>)"

definition telemetryServer_handleUpgrade :: "request \<Rightarrow> sock \<Rightarrow> server \<Rightarrow> server" where
  "telemetryServer_handleUpgrade request socket st =
     ws_handleUpgrade request socket (handleVehicleConnection socket request) st"

text \<open>\<^verbatim>\<open>loadProtoDefinitions\<close>, when the load succeeds.\<close>

definition protoLoaded :: "server \<Rightarrow> server" where
  "protoLoaded st = logger INFO ''Protobuf definitions loaded successfully.'' (st\<lparr>PayloadType := True\<rparr>)"

section \<open>The listener: routing of upgrade requests\<close>

text \<open>The path name the \<^verbatim>\<open>upgrade\<close> listener routes on.\<close>

definition request_pathname :: "js_env \<Rightarrow> request \<Rightarrow> string + string" where
  "request_pathname env request =
     (case url request of
        None \<Rightarrow> Inr ''/''
      | Some u \<Rightarrow>
          if u = [] then Inr ''/''
          else (case URL_new env u (base_url request) of
                  Inl message \<Rightarrow> Inl message
                | Inr parsed \<Rightarrow> Inr (pathname parsed)))"

definition upgrade :: "js_env \<Rightarrow> request \<Rightarrow> sock \<Rightarrow> string \<Rightarrow> server \<Rightarrow> server" where
  "upgrade env request socket now st =
     (case request_pathname env request of
        Inl message \<Rightarrow>
          emit [Log ERROR (''Error handling WebSocket upgrade: '' @ message),
                SocketWrite socket (''HTTP/1.1 500 Internal Server Error'' @ CRLF @ CRLF),
                SocketDestroy socket] st
      | Inr path \<Rightarrow>
          if path = ''/stream'' then
            clientServer_handleUpgrade env request socket now
              (logger DEBUG (''Client WebSocket connection attempt to '' @ path) st)
          else if path = ''/'' then
            telemetryServer_handleUpgrade request socket
              (logger DEBUG (''Vehicle WebSocket connection attempt to '' @ path) st)
          else
            emit [Log WARN (''WebSocket connection attempt to invalid path: '' @ path),
                  SocketWrite socket (''HTTP/1.1 404 Not Found'' @ CRLF @ CRLF),
                  SocketDestroy socket] st)"

section \<open>The process as a reactor\<close>

text \<open>
  The events the single thread of the process handles one at a time: an upgrade request
  on a new transport, the events of a WebSocket, which reach the listeners the socket
  carries, the timer of the heartbeat, and the end of the schema load. Before a
  \<^verbatim>\<open>close\<close> event the library has set the \<^verbatim>\<open>readyState\<close> to closed; the peer starting
  the closing handshake makes it closing. Each event brings the readings of the clock its
  handler takes.
\<close>

datatype event =
    Upgrade request sock string
  | Message sock wsdata string string
  | Close sock string
  | Error sock string
  | Pong sock
  | Closing sock
  | Tick
  | ProtoLoaded

fun step :: "js_env \<Rightarrow> server \<Rightarrow> event \<Rightarrow> server" where
  "step env st (Upgrade request socket now) = upgrade env request socket now st"
| "step env st (Message socket data t_connect t_ack) =
     (case listeners st socket of
        Some VehicleListeners \<Rightarrow> handleVehicleMessage env socket data t_connect t_ack st
      | _ \<Rightarrow> st)"
| "step env st (Close socket now) =
     (let st1 = st\<lparr>readyState := (readyState st)(socket := CLOSED)\<rparr>
      in case listeners st socket of
           Some VehicleListeners \<Rightarrow> vehicle_close env socket now st1
         | Some (ClientListeners request) \<Rightarrow> client_close socket request st1
         | None \<Rightarrow> st1)"
| "step env st (Error socket message) =
     (case listeners st socket of
        Some VehicleListeners \<Rightarrow> vehicle_error message st
      | Some (ClientListeners request) \<Rightarrow> client_error socket message st
      | None \<Rightarrow> st)"
| "step env st (Pong socket) =
     (case listeners st socket of
        Some (ClientListeners request) \<Rightarrow> client_pong socket st
      | _ \<Rightarrow> st)"
| "step env st (Closing socket) =
     (if readyState st socket = OPEN then st\<lparr>readyState := (readyState st)(socket := CLOSING)\<rparr>
      else st)"
| "step env st Tick = heartbeat st"
| "step env st ProtoLoaded = protoLoaded st"

fun run :: "js_env \<Rightarrow> server \<Rightarrow> event list \<Rightarrow> server" where
  "run env st [] = st"
| "run env st (ev # evs) = run env (step env st ev) evs"

text \<open>The process after the constructors: nothing connected, the schema not loaded.\<close>

definition startup :: server where
  "startup =
     \<lparr>clients = [], vehicleConnections = [], PayloadType = False,
      listeners = (\<lambda>s. None), readyState = (\<lambda>s. CLOSED), isAlive = (\<lambda>s. None),
      authData = (\<lambda>s. None), trace = []\<rparr>"

section \<open>Reading the trace\<close>

text \<open>What a socket is sent in a stretch of the trace, the values serialised in it, and
  the diagnostics in it.\<close>

fun received :: "sock \<Rightarrow> effect list \<Rightarrow> string list" where
  "received c [] = []"
| "received c (Send c' s # es) = (if c' = c then s # received c es else received c es)"
| "received c (e # es) = received c es"

fun serialisations :: "effect list \<Rightarrow> json list" where
  "serialisations [] = []"
| "serialisations (Stringify v # es) = v # serialisations es"
| "serialisations (e # es) = serialisations es"

fun diagnostics :: "effect list \<Rightarrow> (level \<times> string) list" where
  "diagnostics [] = []"
| "diagnostics (Log lvl s # es) = (lvl, s) # diagnostics es"
| "diagnostics (e # es) = diagnostics es"

text \<open>The effects of a handler: what it adds to the trace.\<close>

definition effects :: "server \<Rightarrow> server \<Rightarrow> effect list" where
  "effects st st' = drop (length (trace st)) (trace st')"


fun deliveries :: "effect list \<Rightarrow> (sock \<times> string) list" where
  "deliveries [] = []"
| "deliveries (Send c s # es) = (c, s) # deliveries es"
| "deliveries (e # es) = deliveries es"

text \<open>What is done to raw transports in a stretch of the trace.\<close>

fun transport :: "effect list \<Rightarrow> effect list" where
  "transport [] = []"
| "transport (SocketWrite c s # es) = SocketWrite c s # transport es"
| "transport (SocketDestroy c # es) = SocketDestroy c # transport es"
| "transport (AbortHandshake c status # es) = AbortHandshake c status # transport es"
| "transport (e # es) = transport es"

text \<open>Whether an effect is a diagnostic, and the effects of a broadcast of a value in a
  state whose pool is not empty: one serialisation, the sends to the open connections of
  the pool in its order, and the count logged.\<close>

fun is_log :: "effect \<Rightarrow> bool" where
  "is_log (Log lvl s) = True"
| "is_log e = False"

definition open_clients :: "server \<Rightarrow> sock list" where
  "open_clients st = filter (\<lambda>c. readyState st c = OPEN) (clients st)"

definition fanout :: "js_env \<Rightarrow> server \<Rightarrow> json \<Rightarrow> effect list" where
  "fanout env st m =
     (if clients st = [] then []
      else [Stringify m] @ map (\<lambda>c. Send c (JSON_stringify env m)) (open_clients st) @
           [Log DEBUG (''Broadcast telemetry to '' @ string_of_nat (length (open_clients st)) @
              '' clients'')])"

text \<open>A stretch of the trace that forwards a value or drops it: diagnostics, then either
  nothing or the broadcast of the value, then diagnostics.\<close>

definition logs_then :: "js_env \<Rightarrow> json \<Rightarrow> server \<Rightarrow> server \<Rightarrow> bool" where
  "logs_then env m st st' =
     (\<exists>pre mid post. st' = emit (pre @ mid @ post) st \<and> list_all is_log pre \<and>
        list_all is_log post \<and> (mid = [] \<or> mid = fanout env st m))"

text \<open>A state that differs from another by diagnostics only.\<close>

definition only_logs :: "server \<Rightarrow> server \<Rightarrow> bool" where
  "only_logs st st' = (\<exists>logs. st' = emit logs st \<and> list_all is_log logs)"

text \<open>The state of a subscriber in the liveness machine, as the heartbeat reads it: its
  only test is \<^verbatim>\<open>isAlive === false\<close>, so a subscriber awaits an acknowledgment when the
  property is false and is alive otherwise (when it is true, and when it was never set).\<close>

datatype liveness = ALIVE | AWAITING_ACK

definition liveness :: "server \<Rightarrow> sock \<Rightarrow> liveness" where
  "liveness st c = (if isAlive st c = Some False then AWAITING_ACK else ALIVE)"

section \<open>A library environment for the examples\<close>

text \<open>
  The examples run the handlers on concrete frames. Their environment has a
  \<^verbatim>\<open>JSON.parse\<close> that knows the frames used, a \<^verbatim>\<open>JSON.stringify\<close> for values whose strings
  need no escape, a schema decoder for the buffers used, a verifier that accepts the
  token \<^verbatim>\<open>good\<close>, and a URL parser for request targets in origin form, which throws on
  the target \<^verbatim>\<open>//\<close> (a host is missing) and on a base with a space in the host, as the
  parser of the platform does.
\<close>

definition frame_A :: string where
  \<open>frame_A = ''{"vin":"V1","data":[{"key":"soc","value":{"doubleValue":80}}],"createdAt":"T1"}''\<close>

definition payload_A :: json where
  "payload_A =
     JObj [(''vin'', JStr ''V1''),
           (''data'', JArr [JObj [(''key'', JStr ''soc''),
                                  (''value'', JObj [(''doubleValue'', JNum 80)])]]),
           (''createdAt'', JStr ''T1'')]"

definition demo_parse :: "string \<Rightarrow> string + json" where
  \<open>demo_parse s =
     (if s = frame_A then Inr payload_A
      else Inl ''Unexpected token'')\<close>

text \<open>
  The schema file is not part of the sources. The decoder of the examples is given the
  names of the fields the \<^verbatim>\<open>Payload\<close> of a schema declares, among \<^verbatim>\<open>data\<close> (repeated, number
  1), \<^verbatim>\<open>createdAt\<close> (number 2) and \<^verbatim>\<open>vin\<close> (a string, number 3), which are the fields of
  \<^verbatim>\<open>TelemetryDataMessage\<close>. It knows two buffers: \<open>frame_V1\<close>, whose only field is the
  identity \<^verbatim>\<open>V1\<close> (tag \<^verbatim>\<open>0x1A\<close>, length 2, the two characters), and the empty buffer, a
  message with no field at all. Since \<^verbatim>\<open>toObject\<close> is called with \<^verbatim>\<open>defaults\<close> and \<^verbatim>\<open>arrays\<close>,
  every declared field is in the object, with its default when the buffer does not have
  it (the empty array, null, the empty string); a field the schema does not declare is
  skipped.
\<close>

definition frame_V1 :: "nat list" where
  "frame_V1 = [0x1A, 0x02, 0x56, 0x31]"

definition default_of :: "string \<Rightarrow> json" where
  "default_of name =
     (if name = ''data'' then JArr [] else if name = ''vin'' then JStr [] else JNull)"

definition schema_decode :: "string list \<Rightarrow> nat list \<Rightarrow> string + json" where
  "schema_decode declared bytes =
     (if bytes = frame_V1 \<or> bytes = []
      then Inr (JObj (map (\<lambda>name. (name, if name = ''vin'' \<and> bytes = frame_V1 then JStr ''V1''
                                         else default_of name)) declared))
      else Inl ''index out of range'')"

text \<open>The two buffers as the full schema decodes them.\<close>

definition payload_V1 :: json where
  "payload_V1 = JObj [(''data'', JArr []), (''createdAt'', JNull), (''vin'', JStr ''V1'')]"

definition payload_no_vin :: json where
  "payload_no_vin = JObj [(''data'', JArr []), (''createdAt'', JNull), (''vin'', JStr [])]"

fun demo_stringify :: "json \<Rightarrow> string"
  and demo_elements :: "json list \<Rightarrow> string"
  and demo_members :: "(string \<times> json) list \<Rightarrow> string" where
  "demo_stringify JNull = ''null''"
| "demo_stringify (JBool b) = (if b then ''true'' else ''false'')"
| "demo_stringify (JNum n) = string_of_int n"
| "demo_stringify (JStr s) = [CHR 0x22] @ s @ [CHR 0x22]"
| "demo_stringify (JArr xs) = ''['' @ demo_elements xs @ '']''"
| "demo_stringify (JObj kvs) = ''{'' @ demo_members kvs @ ''}''"
| "demo_elements [] = []"
| "demo_elements (x # xs) = demo_stringify x @ (if xs = [] then [] else '','' @ demo_elements xs)"
| "demo_members [] = []"
| "demo_members ((k, v) # kvs) =
     [CHR 0x22] @ k @ [CHR 0x22] @ '':'' @ demo_stringify v @
     (if kvs = [] then [] else '','' @ demo_members kvs)"

definition demo_URL :: "string \<Rightarrow> string \<Rightarrow> string + parsed_url" where
  "demo_URL u base =
     (if take 1 u \<noteq> ''/'' \<or> u = ''//'' \<or> CHR 0x20 \<in> set base then Inl ''Invalid URL''
      else (let path = takeWhile (\<lambda>c. c \<noteq> CHR ''?'') u;
                query = drop (length path + 1) u
            in Inr \<lparr>pathname = path,
                    token_param = (if take 6 query = ''token='' then Some (drop 6 query) else None)\<rparr>))"

definition demo_verify :: "string \<Rightarrow> string \<Rightarrow> string + json" where
  "demo_verify token secret =
     (if token = ''good'' then Inr (JObj [(''userId'', JStr ''test-client'')])
      else Inl ''jwt malformed'')"

definition demo_env :: js_env where
  "demo_env =
     \<lparr>JSON_parse = demo_parse, JSON_stringify = demo_stringify,
      Payload_decode = schema_decode [''data'', ''createdAt'', ''vin''],
      jwt_verify = demo_verify, URL_new = demo_URL,
      JWT_SECRET = ''secret'', NODE_ENV = None\<rparr>"

text \<open>Requests of the examples, and the state with the schema loaded in which socket 1 is
  an open producer and sockets 5 and 6 are subscribers, 6 closing.\<close>

definition demo_request :: "string \<Rightarrow> request" where
  "demo_request target =
     \<lparr>url = Some target, host = Some ''relay'', authorization = None,
      remoteAddress = ''10.0.0.9'', handshake = None\<rparr>"

text \<open>The same environment with the decoder of a schema that declares \<^verbatim>\<open>vin\<close> alone, and
  of one that declares \<^verbatim>\<open>data\<close> alone.\<close>

definition vin_only_env :: js_env where
  "vin_only_env = demo_env\<lparr>Payload_decode := schema_decode [''vin'']\<rparr>"


definition demo_state :: server where
  "demo_state =
     \<lparr>clients = [5, 6], vehicleConnections = [], PayloadType = True,
      listeners = (\<lambda>s. if s = 1 \<or> s = 2 then Some VehicleListeners
                         else if s = 5 \<or> s = 6 then Some (ClientListeners (demo_request ''/stream?token=good''))
                         else None),
      readyState = (\<lambda>s. if s = 1 \<or> s = 2 \<or> s = 5 then OPEN else if s = 6 then CLOSING else CLOSED),
      isAlive = (\<lambda>s. None), authData = (\<lambda>s. None), trace = []\<rparr>"

text \<open>The same state once the producer on socket 1 has been identified as \<^verbatim>\<open>V1\<close>.\<close>

definition demo_registered :: server where
  "demo_registered = demo_state\<lparr>vehicleConnections := [(''V1'', 1)]\<rparr>"

text \<open>The same state after a probe that subscriber 6 has not answered.\<close>

definition demo_probed :: server where
  "demo_probed = demo_state\<lparr>isAlive := (\<lambda>s. if s = 6 then Some False else None)\<rparr>"

section \<open>Basic facts about the trace\<close>

lemma emit_fields [simp]:
  "clients (emit es st) = clients st"
  "vehicleConnections (emit es st) = vehicleConnections st"
  "PayloadType (emit es st) = PayloadType st"
  "listeners (emit es st) = listeners st"
  "readyState (emit es st) = readyState st"
  "isAlive (emit es st) = isAlive st"
  "authData (emit es st) = authData st"
  "trace (emit es st) = trace st @ es"
  by (simp_all add: emit_def)

lemma emit_emit [simp]: "emit es (emit es' st) = emit (es' @ es) st"
  by (simp add: emit_def)

lemma emit_Nil [simp]: "emit [] st = st"
  by (simp add: emit_def)

lemma emit_update [simp]:
  "emit es (st\<lparr>clients := cs\<rparr>) = (emit es st)\<lparr>clients := cs\<rparr>"
  "emit es (st\<lparr>vehicleConnections := vc\<rparr>) = (emit es st)\<lparr>vehicleConnections := vc\<rparr>"
  "emit es (st\<lparr>PayloadType := p\<rparr>) = (emit es st)\<lparr>PayloadType := p\<rparr>"
  "emit es (st\<lparr>listeners := l\<rparr>) = (emit es st)\<lparr>listeners := l\<rparr>"
  "emit es (st\<lparr>readyState := r\<rparr>) = (emit es st)\<lparr>readyState := r\<rparr>"
  "emit es (st\<lparr>isAlive := a\<rparr>) = (emit es st)\<lparr>isAlive := a\<rparr>"
  "emit es (st\<lparr>authData := d\<rparr>) = (emit es st)\<lparr>authData := d\<rparr>"
  by (simp_all add: emit_def)

lemma effects_emit [simp]: "effects st (emit es st) = es"
  by (simp add: effects_def)

lemma effects_emit_update [simp]:
  "effects st ((emit es st)\<lparr>clients := cs\<rparr>) = es"
  "effects st ((emit es st)\<lparr>vehicleConnections := vc\<rparr>) = es"
  "effects st ((emit es st)\<lparr>listeners := l\<rparr>) = es"
  "effects st ((emit es st)\<lparr>readyState := r\<rparr>) = es"
  "effects st ((emit es st)\<lparr>isAlive := a\<rparr>) = es"
  "effects st ((emit es st)\<lparr>authData := d\<rparr>) = es"
  by (simp_all add: effects_def)

lemma effects_self [simp]: "effects st st = []"
  by (simp add: effects_def)

lemma received_append [simp]: "received c (es @ es') = received c es @ received c es'"
  by (induction c es rule: received.induct) simp_all

lemma serialisations_append [simp]:
  "serialisations (es @ es') = serialisations es @ serialisations es'"
  by (induction es rule: serialisations.induct) simp_all

lemma diagnostics_append [simp]: "diagnostics (es @ es') = diagnostics es @ diagnostics es'"
  by (induction es rule: diagnostics.induct) simp_all

lemma deliveries_append [simp]: "deliveries (es @ es') = deliveries es @ deliveries es'"
  by (induction es rule: deliveries.induct) simp_all

lemma transport_append [simp]: "transport (es @ es') = transport es @ transport es'"
  by (induction es rule: transport.induct) simp_all

lemma fanout_read [simp]:
  "deliveries (map (\<lambda>c. Send c s) cs) = map (\<lambda>c. (c, s)) cs"
  "serialisations (map (\<lambda>c. Send c s) cs) = []"
  "diagnostics (map (\<lambda>c. Send c s) cs) = []"
  "transport (map (\<lambda>c. Send c s) cs) = []"
  by (induction cs) simp_all

lemma received_fanout:
  "received c (map (\<lambda>c'. Send c' s) cs) = replicate (count_list cs c) s"
  by (induction cs) simp_all

lemma received_fanout_distinct:
  "distinct cs \<Longrightarrow> received c (map (\<lambda>c'. Send c' s) cs) = (if c \<in> set cs then [s] else [])"
  by (induction cs) auto

section \<open>The broadcast\<close>

lemma broadcast_loop_sends:
  "fst (broadcast_loop rs s cs n) = map (\<lambda>c. Send c s) (filter (\<lambda>c. rs c = OPEN) cs)"
  by (induction cs arbitrary: n) (simp_all add: case_prod_beta)

lemma broadcast_loop_count:
  "snd (broadcast_loop rs s cs n) = n + length (filter (\<lambda>c. rs c = OPEN) cs)"
  by (induction cs arbitrary: n) (simp_all add: case_prod_beta)

lemma broadcastTelemetry_emit:
  "broadcastTelemetry env m st =
     emit (if clients st = [] then []
           else [Stringify m] @
                map (\<lambda>c. Send c (JSON_stringify env m))
                  (filter (\<lambda>c. readyState st c = OPEN) (clients st)) @
                [Log DEBUG (''Broadcast telemetry to '' @
                   string_of_nat (length (filter (\<lambda>c. readyState st c = OPEN) (clients st))) @
                   '' clients'')]) st"
  by (simp add: broadcastTelemetry_def case_prod_beta broadcast_loop_sends broadcast_loop_count)

text \<open>
  C6. For every message and every state of the pool, \<^verbatim>\<open>broadcastTelemetry\<close> changes nothing
  but the trace, so neither the membership of the pool nor the registry; when the pool is
  empty it does nothing at all, and in particular serialises nothing; otherwise it
  serialises the message exactly once, and what it sends is that one string to each
  connection of the pool whose state is open, in the order of the pool, and nothing to a
  connection that is not open; no transport is written to or destroyed.
\<close>

theorem broadcast_once_to_open_connections:
  "broadcastTelemetry env m st =
     emit (effects st (broadcastTelemetry env m st)) st \<and>
   clients (broadcastTelemetry env m st) = clients st \<and>
   vehicleConnections (broadcastTelemetry env m st) = vehicleConnections st \<and>
   (clients st = [] \<longrightarrow> broadcastTelemetry env m st = st) \<and>
   (clients st \<noteq> [] \<longrightarrow> serialisations (effects st (broadcastTelemetry env m st)) = [m]) \<and>
   deliveries (effects st (broadcastTelemetry env m st)) =
     map (\<lambda>c. (c, JSON_stringify env m)) (filter (\<lambda>c. readyState st c = OPEN) (clients st)) \<and>
   transport (effects st (broadcastTelemetry env m st)) = []"
  by (simp add: broadcastTelemetry_emit)

theorem broadcast_once_to_open_connections_witness:
  "clients demo_state = [5, 6] \<and> readyState demo_state 5 = OPEN \<and>
   readyState demo_state 6 = CLOSING \<and>
   serialisations (effects demo_state (broadcastTelemetry demo_env payload_A demo_state)) =
     [payload_A] \<and>
   deliveries (effects demo_state (broadcastTelemetry demo_env payload_A demo_state)) =
     [(5, JSON_stringify demo_env payload_A)] \<and>
   clients (broadcastTelemetry demo_env payload_A demo_state) = [5, 6] \<and>
   broadcastTelemetry demo_env payload_A startup = startup"
  using broadcast_once_to_open_connections [of demo_env payload_A demo_state]
    broadcast_once_to_open_connections [of demo_env payload_A startup]
  by (simp add: demo_state_def startup_def)

section \<open>The pipeline of a producer frame\<close>

lemma fanout_emit [simp]: "fanout env (emit es st) m = fanout env st m"
  by (simp add: fanout_def open_clients_def)

lemma fanout_registry [simp]: "fanout env (st\<lparr>vehicleConnections := vc\<rparr>) m = fanout env st m"
  by (simp add: fanout_def open_clients_def)

lemma broadcastTelemetry_fanout: "broadcastTelemetry env m st = emit (fanout env st m) st"
  by (simp add: broadcastTelemetry_emit fanout_def open_clients_def)

lemma is_log_cases: "is_log e \<Longrightarrow> \<exists>l s. e = Log l s"
  by (cases e) simp_all

lemma all_logs_read [simp]:
  "list_all is_log es \<Longrightarrow> received c es = []"
  "list_all is_log es \<Longrightarrow> serialisations es = []"
  "list_all is_log es \<Longrightarrow> deliveries es = []"
  "list_all is_log es \<Longrightarrow> transport es = []"
  by (induction es; auto dest: is_log_cases)+

lemma logs_thenI:
  "st' = emit (pre @ mid @ post) st \<Longrightarrow> list_all is_log pre \<Longrightarrow> list_all is_log post \<Longrightarrow>
   mid = [] \<or> mid = fanout env st m \<Longrightarrow> logs_then env m st st'"
  unfolding logs_then_def by blast

lemma logs_then_refl: "logs_then env m st st"
  by (rule logs_thenI [of _ "[]" "[]" "[]"]) simp_all

lemma logs_then_log: "logs_then env m st (logger l s st)"
  by (rule logs_thenI [of _ "[Log l s]" "[]" "[]"]) (simp_all add: logger_def)

lemma logs_then_broadcast: "logs_then env m st (broadcastTelemetry env m (logger l s st))"
  by (rule logs_thenI [of _ "[Log l s]" "fanout env st m" "[]"])
     (simp_all add: logger_def broadcastTelemetry_fanout)

lemma logs_then_after_log:
  "logs_then env m (logger l s st) st' \<Longrightarrow> logs_then env m st st'"
  unfolding logs_then_def logger_def
  apply (elim exE conjE)
  subgoal for pre mid post
    by (rule exI [of _ "Log l s # pre"], rule exI [of _ mid], rule exI [of _ post]) auto
  done

lemma logs_then_before_log:
  "logs_then env m st st' \<Longrightarrow> logs_then env m st (logger l s st')"
  unfolding logs_then_def logger_def
  apply (elim exE conjE)
  subgoal for pre mid post
    by (rule exI [of _ pre], rule exI [of _ mid], rule exI [of _ "post @ [Log l s]"]) auto
  done

lemma errors_forEach_logs:
  "\<exists>logs. fst (errors_forEach xs st) = emit logs st \<and> list_all is_log logs"
proof (induction xs arbitrary: st)
  case Nil
  show ?case by (rule exI [of _ "[]"]) simp
next
  case (Cons x xs)
  show ?case
  proof (cases "error_line x")
    case (Inl e)
    then show ?thesis by (intro exI [of _ "[]"]) simp
  next
    case (Inr line)
    from Cons [of "logger WARN line st"] obtain logs where
      "fst (errors_forEach xs (logger WARN line st)) = emit logs (logger WARN line st)"
      "list_all is_log logs" by blast
    with Inr show ?thesis
      by (intro exI [of _ "Log WARN line # logs"]) (simp add: logger_def)
  qed
qed

lemma errors_branch:
  "logs_then env m st (fst (case errors_forEach xs st of
        (st2, Some e) \<Rightarrow> (st2, Some e)
      | (st2, None) \<Rightarrow> (broadcastTelemetry env m st2, None)))"
proof -
  obtain logs where l: "fst (errors_forEach xs st) = emit logs st" "list_all is_log logs"
    using errors_forEach_logs by blast
  show ?thesis
  proof (cases "snd (errors_forEach xs st)")
    case None
    with l show ?thesis
      by (intro logs_thenI [of _ logs "fanout env st m" "[]"])
         (simp_all add: case_prod_beta broadcastTelemetry_fanout)
  next
    case (Some e)
    with l show ?thesis
      by (intro logs_thenI [of _ logs "[]" "[]"]) (simp_all add: case_prod_beta)
  qed
qed

lemma processMessage_try_logs_then:
  "logs_then env m st (fst (processMessage_try env m st))"
proof -
  have simple: "logs_then env m st
      (fst (case X of Inl e \<Rightarrow> (st, Some e)
                    | Inr line \<Rightarrow> (broadcastTelemetry env m (logger l line st), None)))"
    for X :: "js_error + string" and l
    by (cases X) (simp_all add: logs_then_refl logs_then_broadcast)
  have errs: "logs_then env m st
      (fst (case X of Inl e \<Rightarrow> (st, Some e)
            | Inr line \<Rightarrow>
               (let st1 = logger WARN line st
                in case Y of
                   Some (JArr errors) \<Rightarrow>
                     (case errors_forEach errors st1 of
                        (st2, Some e) \<Rightarrow> (st2, Some e)
                      | (st2, None) \<Rightarrow> (broadcastTelemetry env m st2, None))
                 | _ \<Rightarrow> (st1, Some (TypeError ''message.errors.forEach is not a function'')))))"
    for X :: "js_error + string" and Y
  proof (cases X)
    case (Inl e)
    then show ?thesis by (simp add: logs_then_refl)
  next
    case (Inr line)
    show ?thesis
    proof (cases Y)
      case None
      with Inr show ?thesis by (simp add: logs_then_log)
    next
      case (Some v)
      with Inr show ?thesis
        by (cases v) (simp_all add: logs_then_log logs_then_after_log [OF errors_branch])
    qed
  qed
  show ?thesis
    unfolding processMessage_try_def
    by (simp only: simple errs if_split [where P = "logs_then env m st"] fst_conv
          if_distrib [where f = fst] if_True if_False simp_thms split: if_split)
qed

lemma processMessage_logs_then: "logs_then env m st (processMessage env m st)"
proof (cases "snd (processMessage_try env m st)")
  case None
  then show ?thesis
    using processMessage_try_logs_then [of env m st]
    by (simp add: processMessage_def case_prod_beta)
next
  case (Some e)
  then show ?thesis
    using logs_then_before_log [OF processMessage_try_logs_then [of env m st]]
    by (cases e) (simp add: processMessage_def case_prod_beta)
qed

lemma processMessage_data_array:
  assumes "get_prop m ''vin'' = Some (JStr v)" and "get_prop m ''data'' = Some (JArr xs)"
  shows "processMessage env m st =
     emit (Log DEBUG (''Received data message from VIN='' @ v @ '' with '' @
             string_of_int (int (length xs)) @ '' data points'') # fanout env st m) st"
proof -
  from assms obtain kvs where m: "m = JObj kvs" by (cases m) simp_all
  with assms show ?thesis
    by (simp add: processMessage_def processMessage_try_def isTelemetryDataMessage_def
          prop_length_def logger_def broadcastTelemetry_fanout)
qed

lemma sendAcknowledgment_emit:
  assumes "get_prop m ''vin'' = Some (JStr v)"
  shows "sendAcknowledgment env socket m now st =
     emit (if isTelemetryDataMessage m \<and> readyState st socket = OPEN
           then [Stringify (ack m now), Send socket (JSON_stringify env (ack m now)),
                 Log DEBUG (''Sent acknowledgment to VIN='' @ v)]
           else []) st"
  using assms by (simp add: sendAcknowledgment_def logger_def)

lemma identify_emit:
  "identify env socket v now st =
     emit (if map_has (vehicleConnections st) v then []
           else Log INFO (''Vehicle identified: VIN='' @ v) #
                fanout env st (connectivity v ''CONNECTED'' now))
       (st\<lparr>vehicleConnections :=
             (if map_has (vehicleConnections st) v then vehicleConnections st
              else map_set (vehicleConnections st) v socket)\<rparr>)"
  by (simp add: identify_def logger_def broadcastTelemetry_fanout)

lemma emit_inject: "emit es st = emit es' st \<longleftrightarrow> es = es'"
proof
  assume "emit es st = emit es' st"
  then have "trace (emit es st) = trace (emit es' st)" by simp
  then show "es = es'" by simp
qed simp

lemma decode_frame_emit:
  "\<exists>l s. snd (decode_frame env data st) = emit [Log l s] st"
proof (cases data)
  case (Buffer bytes)
  then show ?thesis
    by (cases "Payload_decode env bytes") (simp_all add: decode_frame_def logger_def emit_inject)
next
  case (Text s)
  then show ?thesis
    by (cases "JSON_parse env s") (simp_all add: decode_frame_def logger_def emit_inject)
next
  case OtherData
  then show ?thesis
    by (simp add: decode_frame_def logger_def emit_inject)
qed

lemma decode_frame_fst: "fst (decode_frame env data st) = fst (decode_frame env data st')"
  by (cases data) (auto simp: decode_frame_def split: sum.splits)

lemma typeof_string_cases: "typeof_string x \<Longrightarrow> \<exists>s. x = Some (JStr s)"
  by (cases x rule: typeof_string.cases) simp_all

lemma valid_vin_string:
  assumes "\<not> without_valid_vin m"
  shows "get_prop m ''vin'' = Some (JStr (vin_of m))"
proof -
  from assms have "typeof_string (get_prop m ''vin'')" by (simp add: without_valid_vin_def)
  then obtain s where "get_prop m ''vin'' = Some (JStr s)" using typeof_string_cases by blast
  then show ?thesis by (simp add: vin_of_def)
qed


lemma handleVehicleMessage_shape:
  assumes "PayloadType st" and "fst (decode_frame env data st) = Some m"
    and "\<not> without_valid_vin m"
  shows "\<exists>d pre mid post.
     handleVehicleMessage env socket data t_connect t_ack st =
       emit (d # (if map_has (vehicleConnections st) (vin_of m) then []
                  else Log INFO (''Vehicle identified: VIN='' @ vin_of m) #
                       fanout env st (connectivity (vin_of m) ''CONNECTED'' t_connect)) @
             pre @ mid @ post @
             (if isTelemetryDataMessage m \<and> readyState st socket = OPEN
              then [Stringify (ack m t_ack), Send socket (JSON_stringify env (ack m t_ack)),
                    Log DEBUG (''Sent acknowledgment to VIN='' @ vin_of m)]
              else []))
         (st\<lparr>vehicleConnections :=
               (if map_has (vehicleConnections st) (vin_of m) then vehicleConnections st
                else map_set (vehicleConnections st) (vin_of m) socket)\<rparr>) \<and>
     is_log d \<and> list_all is_log pre \<and> list_all is_log post \<and>
     (mid = [] \<or> mid = fanout env st m) \<and>
     (in_and_isArray ''data'' m \<longrightarrow> mid = fanout env st m)"
proof -
  obtain l s where ls: "snd (decode_frame env data st) = emit [Log l s] st"
    using decode_frame_emit by blast
  define d where "d = Log l s"
  have d: "snd (decode_frame env data st) = emit [d] st" "is_log d"
    using ls by (simp_all add: d_def)
  let ?v = "vin_of m"
  let ?vc = "if map_has (vehicleConnections st) ?v then vehicleConnections st
             else map_set (vehicleConnections st) ?v socket"
  let ?idp = "if map_has (vehicleConnections st) ?v then []
              else Log INFO (''Vehicle identified: VIN='' @ ?v) #
                   fanout env st (connectivity ?v ''CONNECTED'' t_connect)"
  let ?st2 = "emit (d # ?idp) (st\<lparr>vehicleConnections := ?vc\<rparr>)"
  let ?st3 = "if classify m = UnknownMessage
              then logger WARN (''Received unknown message type '' @
                     (if typeof_object m \<and> js_in ''vin'' m then ''from VIN='' @ ?v else [])) ?st2
              else ?st2"
  have vin: "get_prop m ''vin'' = Some (JStr ?v)" using assms(3) by (rule valid_vin_string)
  have st2: "identify env socket ?v t_connect (snd (decode_frame env data st)) = ?st2"
    by (simp add: identify_emit d)
  have h: "handleVehicleMessage env socket data t_connect t_ack st =
        sendAcknowledgment env socket m t_ack (processMessage env m ?st3)"
    using assms st2 by (simp add: handleVehicleMessage_def case_prod_beta Let_def)
  have "logs_then env m ?st2 (processMessage env m ?st3)"
    by (auto intro: logs_then_after_log processMessage_logs_then)
  then obtain pre mid post where pm: "processMessage env m ?st3 = emit (pre @ mid @ post) ?st2"
    "list_all is_log pre" "list_all is_log post" "mid = [] \<or> mid = fanout env st m"
    unfolding logs_then_def by (auto)
  have arr: "mid = fanout env st m" if "in_and_isArray ''data'' m"
  proof -
    from that obtain xs where xs: "get_prop m ''data'' = Some (JArr xs)"
      by (cases "get_prop m ''data''"; cases "the (get_prop m ''data'')") simp_all
    from that have "classify m \<noteq> UnknownMessage" by (simp add: classify_def)
    then have "processMessage env m ?st3 = emit
        (Log DEBUG (''Received data message from VIN='' @ ?v @ '' with '' @
             string_of_int (int (length xs)) @ '' data points'') # fanout env st m) ?st2"
      by (simp add: processMessage_data_array [OF vin xs])
    with pm have "pre @ mid @ post = Log DEBUG (''Received data message from VIN='' @ ?v @ '' with '' @
             string_of_int (int (length xs)) @ '' data points'') # fanout env st m"
      by (simp only: emit_inject)
    then have "serialisations (pre @ mid @ post) = serialisations (fanout env st m)"
      by simp
    with pm(2,3) have ser: "serialisations mid = serialisations (fanout env st m)"
      by simp
    show ?thesis
    proof (cases "mid = []")
      case True
      with ser have "clients st = []" by (simp add: fanout_def split: if_splits)
      with True show ?thesis by (simp add: fanout_def)
    next
      case False
      with pm(4) show ?thesis by simp
    qed
  qed
  show ?thesis
    apply (rule exI [of _ d], rule exI [of _ pre], rule exI [of _ mid], rule exI [of _ post])
    using d pm arr by (simp add: h sendAcknowledgment_emit [OF vin])
qed

lemma vin_string:
  assumes "get_prop m ''vin'' = Some (JStr v)"
  shows "\<not> without_valid_vin m" and "vin_of m = v" and "typeof_object m \<and> js_in ''vin'' m"
proof -
  from assms obtain kvs where m: "m = JObj kvs" by (cases m) simp_all
  with assms show "\<not> without_valid_vin m" and "vin_of m = v"
    and "typeof_object m \<and> js_in ''vin'' m"
    by (simp_all add: without_valid_vin_def vin_of_def)
qed

lemma handleVehicleMessage_steps:
  assumes "PayloadType st" and "fst (decode_frame env data st) = Some m"
    and "get_prop m ''vin'' = Some (JStr v)"
  shows "\<exists>d. is_log d \<and>
     handleVehicleMessage env socket data t_connect t_ack st =
       sendAcknowledgment env socket m t_ack
         (processMessage env m
            (emit (d # (if map_has (vehicleConnections st) v then []
                        else Log INFO (''Vehicle identified: VIN='' @ v) #
                             fanout env st (JObj [(''vin'', JStr v), (''connectionId'', JStr []),
                               (''status'', JStr ''CONNECTED''), (''timestamp'', JStr t_connect)])) @
                   (if classify m = UnknownMessage
                    then [Log WARN (''Received unknown message type from VIN='' @ v)] else []))
               (st\<lparr>vehicleConnections :=
                     (if map_has (vehicleConnections st) v then vehicleConnections st
                      else map_set (vehicleConnections st) v socket)\<rparr>)))"
proof -
  obtain l s where ls: "snd (decode_frame env data st) = emit [Log l s] st"
    using decode_frame_emit by blast
  note v = vin_string [OF assms(3)]
  have "handleVehicleMessage env socket data t_connect t_ack st =
       sendAcknowledgment env socket m t_ack
         (processMessage env m
            (emit (Log l s # (if map_has (vehicleConnections st) v then []
                        else Log INFO (''Vehicle identified: VIN='' @ v) #
                             fanout env st (JObj [(''vin'', JStr v), (''connectionId'', JStr []),
                               (''status'', JStr ''CONNECTED''), (''timestamp'', JStr t_connect)])) @
                   (if classify m = UnknownMessage
                    then [Log WARN (''Received unknown message type from VIN='' @ v)] else []))
               (st\<lparr>vehicleConnections :=
                     (if map_has (vehicleConnections st) v then vehicleConnections st
                      else map_set (vehicleConnections st) v socket)\<rparr>)))"
    using assms(1,2) v ls
    by (simp add: handleVehicleMessage_def case_prod_beta Let_def identify_emit logger_def
          connectivity_def)
  then show ?thesis by (intro exI [of _ "Log l s"]) simp
qed

lemma processMessage_no_shape:
  assumes "get_prop m ''vin'' = Some (JStr v)"
    and "\<not> js_in ''data'' m" and "\<not> js_in ''errors'' m" and "\<not> js_in ''alerts'' m"
    and "get_prop m ''status'' = None \<or> typeof_string (get_prop m ''status'')"
  shows "\<exists>d. is_log d \<and> processMessage env m st = emit (d # fanout env st m) st"
proof -
  from assms(1) obtain kvs where m: "m = JObj kvs" by (cases m) simp_all
  show ?thesis
  proof (cases "get_prop m ''status''")
    case None
    with m assms have "processMessage env m st =
        emit (Log WARN (''Received unknown message type from VIN='' @ v) # fanout env st m) st"
      by (simp add: processMessage_def processMessage_try_def isTelemetryDataMessage_def
            isTelemetryConnectivityMessage_def isTelemetryErrorMessage_def
            isTelemetryAlertMessage_def logger_def broadcastTelemetry_fanout)
    then show ?thesis by (intro exI [of _ "Log WARN (''Received unknown message type from VIN='' @ v)"]) simp
  next
    case (Some x)
    with assms(5) obtain s where s: "get_prop m ''status'' = Some (JStr s)"
      using typeof_string_cases by auto
    with m assms have "processMessage env m st =
        emit (Log INFO (''Received connectivity message from VIN='' @ v @ '': status='' @ s) #
              fanout env st m) st"
      by (simp add: processMessage_def processMessage_try_def isTelemetryDataMessage_def
            isTelemetryConnectivityMessage_def logger_def broadcastTelemetry_fanout)
    then show ?thesis
      by (intro exI [of _ "Log INFO (''Received connectivity message from VIN='' @ v @ '': status='' @ s)"]) simp
  qed
qed

section \<open>Identity discovery\<close>

lemma map_set_absent: "\<not> map_has vc k \<Longrightarrow> map_set vc k v = vc @ [(k, v)]"
  by (induction vc) (auto simp: map_has_def)

lemma received_fanout_open:
  assumes "distinct (clients st)"
  shows "received c (fanout env st m) =
     (if c \<in> set (open_clients st) then [JSON_stringify env m] else [])"
proof -
  from assms have "distinct (open_clients st)" by (simp add: open_clients_def)
  then show ?thesis
    by (auto simp: fanout_def received_fanout_distinct open_clients_def)
qed

text \<open>
  C5. A frame that passes the decoding stage (the schema is loaded and the frame decodes)
  and carries an identity \<open>v\<close> that the registry does not hold yet, arriving on a producer
  socket while the pool is a set that does not hold that socket: the registry gains the
  entry from \<open>v\<close> to the socket; every open subscriber is sent first the synthesized
  message \<^verbatim>\<open>{vin: v, connectionId: '', status: 'CONNECTED', timestamp}\<close> and then, at most,
  the payload of the frame, and nothing else; when the frame is typed as a data message
  every open subscriber is sent exactly the CONNECTED message and then the payload, and
  the producer, if its socket is open, is sent exactly one frame, the acknowledgment
  \<^verbatim>\<open>{type: 'ack', vin: v, timestamp}\<close>.
\<close>

theorem first_frame_announces_producer:
  assumes "PayloadType st" and "fst (decode_frame env data st) = Some m"
    and "get_prop m ''vin'' = Some (JStr v)" and "\<not> map_has (vehicleConnections st) v"
    and "distinct (clients st)" and "socket \<notin> set (clients st)"
  shows "(let st' = handleVehicleMessage env socket data t_connect t_ack st;
              connected = JSON_stringify env
                (JObj [(''vin'', JStr v), (''connectionId'', JStr []),
                       (''status'', JStr ''CONNECTED''), (''timestamp'', JStr t_connect)]);
              payload = JSON_stringify env m;
              acknowledgment = JSON_stringify env
                (JObj [(''type'', JStr ''ack''), (''vin'', JStr v), (''timestamp'', JStr t_ack)])
          in vehicleConnections st' = vehicleConnections st @ [(v, socket)] \<and>
             map_of (vehicleConnections st') v = Some socket \<and>
             (\<forall>c\<in>set (clients st). readyState st c = OPEN \<longrightarrow>
                received c (effects st st') = [connected, payload] \<or>
                received c (effects st st') = [connected]) \<and>
             (classify m = DataMessage \<longrightarrow>
                (\<forall>c\<in>set (clients st). readyState st c = OPEN \<longrightarrow>
                   received c (effects st st') = [connected, payload]) \<and>
                (readyState st socket = OPEN \<longrightarrow>
                   received socket (effects st st') = [acknowledgment])))"
proof -
  note v = vin_string [OF assms(3)]
  let ?con = "JObj [(''vin'', JStr v), (''connectionId'', JStr []),
                    (''status'', JStr ''CONNECTED''), (''timestamp'', JStr t_connect)]"
  let ?ack = "JObj [(''type'', JStr ''ack''), (''vin'', JStr v), (''timestamp'', JStr t_ack)]"
  have con: "connectivity v ''CONNECTED'' t_connect = ?con" by (simp add: connectivity_def)
  have ak: "ack m t_ack = ?ack" using assms(3) by (simp add: ack_def)
  obtain d pre mid post where h:
    "handleVehicleMessage env socket data t_connect t_ack st =
       emit (d # (Log INFO (''Vehicle identified: VIN='' @ v) # fanout env st ?con) @
             pre @ mid @ post @
             (if isTelemetryDataMessage m \<and> readyState st socket = OPEN
              then [Stringify ?ack, Send socket (JSON_stringify env ?ack),
                    Log DEBUG (''Sent acknowledgment to VIN='' @ v)]
              else []))
         (st\<lparr>vehicleConnections := map_set (vehicleConnections st) v socket\<rparr>)"
    and logs: "is_log d" "list_all is_log pre" "list_all is_log post"
    and mid: "mid = [] \<or> mid = fanout env st m"
    and arr: "in_and_isArray ''data'' m \<longrightarrow> mid = fanout env st m"
    using handleVehicleMessage_shape [OF assms(1,2) v(1), of socket t_connect t_ack] assms(4)
    unfolding v(2) con ak
    by (auto simp del: in_and_isArray.simps)
  obtain l s where d: "d = Log l s" using logs(1) is_log_cases by blast
  have sock: "socket \<notin> set (open_clients st)" using assms(6) by (simp add: open_clients_def)
  have vc: "map_set (vehicleConnections st) v socket = vehicleConnections st @ [(v, socket)]"
    using assms(4) by (rule map_set_absent)
  have look: "map_of (vehicleConnections st @ [(v, socket)]) v = Some socket"
  proof -
    from assms(4) have "map_of (vehicleConnections st) v = None"
      unfolding map_has_def by blast
    then show ?thesis by (simp add: map_add_Some_iff)
  qed
  have data: "in_and_isArray ''data'' m" "isTelemetryDataMessage m" if "classify m = DataMessage"
    using that by (simp_all add: classify_def isTelemetryDataMessage_def split: if_splits)
  have rc: "received c (effects st (handleVehicleMessage env socket data t_connect t_ack st)) =
      JSON_stringify env ?con # received c mid"
    if "c \<in> set (clients st)" "readyState st c = OPEN" for c
  proof -
    from that have o: "c \<in> set (open_clients st)" by (simp add: open_clients_def)
    with sock have "c \<noteq> socket" by blast
    with o show ?thesis
      by (simp add: h d logs received_fanout_open [OF assms(5)])
  qed
  have rm: "received c (fanout env st m) = [JSON_stringify env m]"
    if "c \<in> set (clients st)" "readyState st c = OPEN" for c
    using that by (simp add: received_fanout_open [OF assms(5)] open_clients_def)
  have rs: "received socket (effects st (handleVehicleMessage env socket data t_connect t_ack st)) =
      [JSON_stringify env ?ack]"
    if "classify m = DataMessage" "readyState st socket = OPEN"
    using that data sock mid
    by (auto simp add: h d logs received_fanout_open [OF assms(5)])
  show ?thesis
    unfolding Let_def
    apply (intro conjI ballI impI)
    subgoal by (simp add: h vc)
    subgoal using look by (simp add: h vc)
    subgoal for c using mid by (auto simp: rc rm)
    subgoal for c using arr data by (simp add: rc rm)
    subgoal by (rule rs)
    done
qed

theorem first_frame_announces_producer_witness:
  "PayloadType demo_state \<and>
   fst (decode_frame demo_env (Buffer frame_V1) demo_state) = Some payload_V1 \<and>
   get_prop payload_V1 ''vin'' = Some (JStr ''V1'') \<and>
   \<not> map_has (vehicleConnections demo_state) ''V1'' \<and>
   distinct (clients demo_state) \<and> 1 \<notin> set (clients demo_state) \<and>
   clients demo_state = [5, 6] \<and> readyState demo_state 5 = OPEN \<and>
   classify payload_V1 = DataMessage \<and> readyState demo_state 1 = OPEN \<and>
   vehicleConnections
       (handleVehicleMessage demo_env 1 (Buffer frame_V1) ''T0'' ''T2'' demo_state) =
     [(''V1'', 1)] \<and>
   received 5 (effects demo_state
       (handleVehicleMessage demo_env 1 (Buffer frame_V1) ''T0'' ''T2'' demo_state)) =
     [JSON_stringify demo_env
        (JObj [(''vin'', JStr ''V1''), (''connectionId'', JStr []),
               (''status'', JStr ''CONNECTED''), (''timestamp'', JStr ''T0'')]),
      JSON_stringify demo_env payload_V1] \<and>
   received 1 (effects demo_state
       (handleVehicleMessage demo_env 1 (Buffer frame_V1) ''T0'' ''T2'' demo_state)) =
     [JSON_stringify demo_env
        (JObj [(''type'', JStr ''ack''), (''vin'', JStr ''V1''), (''timestamp'', JStr ''T2'')])]"
proof -
  have h1: "PayloadType demo_state" by (simp add: demo_state_def)
  have h2: "fst (decode_frame demo_env (Buffer frame_V1) demo_state) = Some payload_V1"
    by (simp add: decode_frame_def demo_env_def schema_decode_def default_of_def payload_V1_def)
  have h3: "get_prop payload_V1 ''vin'' = Some (JStr ''V1'')" by (simp add: payload_V1_def)
  have h4: "\<not> map_has (vehicleConnections demo_state) ''V1''"
    by (simp add: map_has_def demo_state_def)
  have h5: "distinct (clients demo_state)" by (simp add: demo_state_def)
  have h6: "1 \<notin> set (clients demo_state)" by (simp add: demo_state_def)
  have c: "classify payload_V1 = DataMessage" by (simp add: classify_def payload_V1_def)
  have r: "readyState demo_state 1 = OPEN" by (simp add: demo_state_def)
  have cl: "clients demo_state = [5, 6]" by (simp add: demo_state_def)
  have r5: "readyState demo_state 5 = OPEN" by (simp add: demo_state_def)
  have vc: "vehicleConnections demo_state = []" by (simp add: demo_state_def)
  show ?thesis
    using first_frame_announces_producer [OF h1 h2 h3 h4 h5 h6, of "''T0''" "''T2''"]
      h1 h2 h3 h4 h5 h6 c r r5
    by (simp add: Let_def cl vc)
qed

text \<open>
  C2 as the specification states it fails: with the identity \<^verbatim>\<open>V1\<close> registered for the
  open connection 1, a binary frame carrying \<^verbatim>\<open>V1\<close> on connection 2 does not make the
  registry map \<^verbatim>\<open>V1\<close> to 2.
\<close>

theorem overwrite_counterexample:
  "map_of (vehicleConnections demo_registered) ''V1'' = Some 1 \<and>
   readyState demo_registered 1 = OPEN \<and>
   fst (decode_frame demo_env (Buffer frame_V1) demo_registered) = Some payload_V1 \<and>
   vin_of payload_V1 = ''V1'' \<and>
   map_of (vehicleConnections
     (handleVehicleMessage demo_env 2 (Buffer frame_V1) ''T0'' ''T2'' demo_registered)) ''V1'' \<noteq> Some 2"
  by code_simp

lemma received_fanout_absent:
  "c \<notin> set (clients st) \<Longrightarrow> received c (fanout env st m) = []"
  by (simp add: fanout_def received_fanout open_clients_def)

text \<open>
  C2, as the code has it. A frame that passes the decoding stage and carries an identity
  that the registry already maps to another connection leaves the registry as it is: the
  identity stays mapped to the connection that registered it first. The frame is processed
  all the same, and the connection that holds the identity is sent nothing on account of
  it.
\<close>

theorem registered_identity_keeps_first_connection:
  assumes "PayloadType st" and "fst (decode_frame env data st) = Some m"
    and "\<not> without_valid_vin m"
    and "map_of (vehicleConnections st) (vin_of m) = Some c'"
    and "c' \<noteq> socket" and "c' \<notin> set (clients st)"
  shows "vehicleConnections (handleVehicleMessage env socket data t_connect t_ack st) =
           vehicleConnections st \<and>
         map_of (vehicleConnections (handleVehicleMessage env socket data t_connect t_ack st))
           (vin_of m) = Some c' \<and>
         received c' (effects st (handleVehicleMessage env socket data t_connect t_ack st)) = []"
proof -
  from assms(4) have has: "map_has (vehicleConnections st) (vin_of m)"
    unfolding map_has_def by simp
  obtain d pre mid post where h:
    "handleVehicleMessage env socket data t_connect t_ack st =
       emit (d # pre @ mid @ post @
             (if isTelemetryDataMessage m \<and> readyState st socket = OPEN
              then [Stringify (ack m t_ack), Send socket (JSON_stringify env (ack m t_ack)),
                    Log DEBUG (''Sent acknowledgment to VIN='' @ vin_of m)]
              else []))
         (st\<lparr>vehicleConnections := vehicleConnections st\<rparr>)"
    and logs: "is_log d" "list_all is_log pre" "list_all is_log post"
    and mid: "mid = [] \<or> mid = fanout env st m"
    using handleVehicleMessage_shape [OF assms(1-3), of socket t_connect t_ack] has
    by (auto simp del: in_and_isArray.simps)
  obtain l s where d: "d = Log l s" using logs(1) is_log_cases by blast
  from mid assms(6) have "received c' mid = []" by (auto simp: received_fanout_absent)
  with assms(4,5) show ?thesis
    by (simp add: h d logs)
qed

theorem registered_identity_keeps_first_connection_witness:
  "PayloadType demo_registered \<and>
   fst (decode_frame demo_env (Buffer frame_V1) demo_registered) = Some payload_V1 \<and>
   \<not> without_valid_vin payload_V1 \<and>
   map_of (vehicleConnections demo_registered) (vin_of payload_V1) = Some 1 \<and>
   (1::nat) \<noteq> 2 \<and> 1 \<notin> set (clients demo_registered) \<and>
   vehicleConnections (handleVehicleMessage demo_env 2 (Buffer frame_V1) ''T0'' ''T2'' demo_registered) =
     [(''V1'', 1)] \<and>
   received 1 (effects demo_registered
      (handleVehicleMessage demo_env 2 (Buffer frame_V1) ''T0'' ''T2'' demo_registered)) = []"
proof -
  have h1: "PayloadType demo_registered" by (simp add: demo_registered_def demo_state_def)
  have h2: "fst (decode_frame demo_env (Buffer frame_V1) demo_registered) = Some payload_V1"
    by (simp add: decode_frame_def demo_env_def schema_decode_def default_of_def payload_V1_def)
  have h3: "\<not> without_valid_vin payload_V1" by (simp add: without_valid_vin_def payload_V1_def)
  have h4: "map_of (vehicleConnections demo_registered) (vin_of payload_V1) = Some 1"
    by (simp add: demo_registered_def vin_of_def payload_V1_def)
  have h5: "(1::nat) \<noteq> 2" by simp
  have h6: "1 \<notin> set (clients demo_registered)" by (simp add: demo_registered_def demo_state_def)
  have vc: "vehicleConnections demo_registered = [(''V1'', 1)]" by (simp add: demo_registered_def)
  show ?thesis
    using registered_identity_keeps_first_connection [OF h1 h2 h3 h4 h5 h6, of "''T0''" "''T2''"]
      h1 h2 h3 h4 h6
    by (simp add: vc)
qed

section \<open>Acknowledgment and forwarding\<close>

text \<open>
  \<^verbatim>\<open>toObject\<close> is called with \<^verbatim>\<open>arrays\<close> set, so a repeated field of the schema is an array in
  every decoded payload, and with \<^verbatim>\<open>enums: String\<close>, so an enumeration is a string. The two
  theorems of this section are about payloads of that kind: a \<^verbatim>\<open>data\<close>, \<^verbatim>\<open>errors\<close> or
  \<^verbatim>\<open>alerts\<close> property, when there is one, is an array, and a \<^verbatim>\<open>status\<close>, when there is
  one, is a string.
\<close>

lemma data_key_iff_data_message:
  assumes "get_prop m ''data'' = None \<or> (\<exists>xs. get_prop m ''data'' = Some (JArr xs))"
  shows "isTelemetryDataMessage m \<longleftrightarrow> classify m = DataMessage"
proof (cases m)
  case (JObj kvs)
  with assms show ?thesis
    by (auto simp: isTelemetryDataMessage_def classify_def)
qed (simp_all add: isTelemetryDataMessage_def classify_def)

text \<open>
  C3. A frame that passes the decoding stage and carries an identity \<open>v\<close>, arriving on a
  producer socket that is not in the pool: when the socket is open, what the producer is
  sent on account of the frame is the one acknowledgment
  \<^verbatim>\<open>{type: 'ack', vin: v, timestamp}\<close> if the frame is typed as a data message, and nothing
  if it is typed as anything else; a socket that is not open is sent nothing.
\<close>

theorem acknowledged_iff_data_message:
  assumes "PayloadType st" and "fst (decode_frame env data st) = Some m"
    and "get_prop m ''vin'' = Some (JStr v)"
    and "get_prop m ''data'' = None \<or> (\<exists>xs. get_prop m ''data'' = Some (JArr xs))"
    and "socket \<notin> set (clients st)"
  shows "(readyState st socket = OPEN \<longrightarrow>
            received socket (effects st (handleVehicleMessage env socket data t_connect t_ack st)) =
              (if classify m = DataMessage
               then [JSON_stringify env
                       (JObj [(''type'', JStr ''ack''), (''vin'', JStr v),
                              (''timestamp'', JStr t_ack)])]
               else [])) \<and>
         (readyState st socket \<noteq> OPEN \<longrightarrow>
            received socket (effects st (handleVehicleMessage env socket data t_connect t_ack st)) =
              [])"
proof -
  note v = vin_string [OF assms(3)]
  let ?ack = "JObj [(''type'', JStr ''ack''), (''vin'', JStr v), (''timestamp'', JStr t_ack)]"
  have ak: "ack m t_ack = ?ack" using assms(3) by (simp add: ack_def)
  obtain d pre mid post where h:
    "handleVehicleMessage env socket data t_connect t_ack st =
       emit (d # (if map_has (vehicleConnections st) v then []
                  else Log INFO (''Vehicle identified: VIN='' @ v) #
                       fanout env st (connectivity v ''CONNECTED'' t_connect)) @
             pre @ mid @ post @
             (if isTelemetryDataMessage m \<and> readyState st socket = OPEN
              then [Stringify ?ack, Send socket (JSON_stringify env ?ack),
                    Log DEBUG (''Sent acknowledgment to VIN='' @ v)]
              else []))
         (st\<lparr>vehicleConnections :=
               (if map_has (vehicleConnections st) v then vehicleConnections st
                else map_set (vehicleConnections st) v socket)\<rparr>)"
    and logs: "is_log d" "list_all is_log pre" "list_all is_log post"
    and mid: "mid = [] \<or> mid = fanout env st m"
    using handleVehicleMessage_shape [OF assms(1,2) v(1), of socket t_connect t_ack]
    unfolding v(2) ak
    by (auto simp del: in_and_isArray.simps)
  obtain l s where d: "d = Log l s" using logs(1) is_log_cases by blast
  from mid assms(5) have m: "received socket mid = []" by (auto simp: received_fanout_absent)
  have r: "received socket (effects st (handleVehicleMessage env socket data t_connect t_ack st)) =
      (if classify m = DataMessage \<and> readyState st socket = OPEN
       then [JSON_stringify env ?ack] else [])"
    using assms(5) m
    by (simp add: h d logs received_fanout_absent data_key_iff_data_message [OF assms(4)])
  show ?thesis unfolding r by simp
qed

theorem acknowledged_iff_data_message_witness:
  "PayloadType demo_state \<and> 1 \<notin> set (clients demo_state) \<and> readyState demo_state 1 = OPEN \<and>
   fst (decode_frame demo_env (Buffer frame_V1) demo_state) = Some payload_V1 \<and>
   get_prop payload_V1 ''vin'' = Some (JStr ''V1'') \<and>
   get_prop payload_V1 ''data'' = Some (JArr []) \<and>
   classify payload_V1 = DataMessage \<and>
   received 1 (effects demo_state
       (handleVehicleMessage demo_env 1 (Buffer frame_V1) ''T0'' ''T2'' demo_state)) =
     [JSON_stringify demo_env
        (JObj [(''type'', JStr ''ack''), (''vin'', JStr ''V1''), (''timestamp'', JStr ''T2'')])] \<and>
   fst (decode_frame vin_only_env (Buffer frame_V1) demo_state) =
     Some (JObj [(''vin'', JStr ''V1'')]) \<and>
   get_prop (JObj [(''vin'', JStr ''V1'')]) ''data'' = None \<and>
   classify (JObj [(''vin'', JStr ''V1'')]) = UnknownMessage \<and>
   received 1 (effects demo_state
       (handleVehicleMessage vin_only_env 1 (Buffer frame_V1) ''T0'' ''T2'' demo_state)) = []"
proof -
  have h1: "PayloadType demo_state" by (simp add: demo_state_def)
  have h5: "1 \<notin> set (clients demo_state)" by (simp add: demo_state_def)
  have r: "readyState demo_state 1 = OPEN" by (simp add: demo_state_def)
  have a2: "fst (decode_frame demo_env (Buffer frame_V1) demo_state) = Some payload_V1"
    by (simp add: decode_frame_def demo_env_def schema_decode_def default_of_def payload_V1_def)
  have a3: "get_prop payload_V1 ''vin'' = Some (JStr ''V1'')" by (simp add: payload_V1_def)
  have a4: "get_prop payload_V1 ''data'' = Some (JArr [])" by (simp add: payload_V1_def)
  have a4': "get_prop payload_V1 ''data'' = None \<or>
      (\<exists>xs. get_prop payload_V1 ''data'' = Some (JArr xs))" using a4 by simp
  have ac: "classify payload_V1 = DataMessage" by (simp add: classify_def payload_V1_def)
  have b2: "fst (decode_frame vin_only_env (Buffer frame_V1) demo_state) =
      Some (JObj [(''vin'', JStr ''V1'')])"
    by (simp add: decode_frame_def vin_only_env_def schema_decode_def)
  have b3: "get_prop (JObj [(''vin'', JStr ''V1'')]) ''vin'' = Some (JStr ''V1'')" by simp
  have b4: "get_prop (JObj [(''vin'', JStr ''V1'')]) ''data'' = None" by simp
  have b4': "get_prop (JObj [(''vin'', JStr ''V1'')]) ''data'' = None \<or>
      (\<exists>xs. get_prop (JObj [(''vin'', JStr ''V1'')]) ''data'' = Some (JArr xs))" by simp
  have bc: "classify (JObj [(''vin'', JStr ''V1'')]) = UnknownMessage" by (simp add: classify_def)
  from acknowledged_iff_data_message [OF h1 a2 a3 a4' h5, of "''T0''" "''T2''"] r ac
  have ra: "received 1 (effects demo_state
       (handleVehicleMessage demo_env 1 (Buffer frame_V1) ''T0'' ''T2'' demo_state)) =
     [JSON_stringify demo_env
        (JObj [(''type'', JStr ''ack''), (''vin'', JStr ''V1''), (''timestamp'', JStr ''T2'')])]"
    by simp
  from acknowledged_iff_data_message [OF h1 b2 b3 b4' h5, of "''T0''" "''T2''"] r bc
  have rb: "received 1 (effects demo_state
       (handleVehicleMessage vin_only_env 1 (Buffer frame_V1) ''T0'' ''T2'' demo_state)) = []"
    by simp
  show ?thesis using h1 h5 r a2 a3 a4 ac ra b2 b4 bc rb by blast
qed

lemma serialisations_fanout_eq:
  "serialisations (fanout env st m) = (if clients st = [] then [] else [m])"
  by (simp add: fanout_def)

text \<open>
  C8. A frame that passes the decoding stage, carries an identity \<open>v\<close> and is typed as an
  unknown message, the pool being a set: every open subscriber is sent the payload as it
  was decoded, after the CONNECTED message when the identity is new, and nothing else;
  the payload is serialised once, unless the pool is empty; and the diagnostic
  \<^verbatim>\<open>Received unknown message type from VIN=v\<close> is logged.
\<close>

theorem unknown_message_forwarded:
  assumes "PayloadType st" and "fst (decode_frame env data st) = Some m"
    and "get_prop m ''vin'' = Some (JStr v)"
    and "classify m = UnknownMessage"
    and "get_prop m ''data'' = None \<or> (\<exists>xs. get_prop m ''data'' = Some (JArr xs))"
    and "get_prop m ''errors'' = None \<or> (\<exists>xs. get_prop m ''errors'' = Some (JArr xs))"
    and "get_prop m ''alerts'' = None \<or> (\<exists>xs. get_prop m ''alerts'' = Some (JArr xs))"
    and "get_prop m ''status'' = None \<or> typeof_string (get_prop m ''status'')"
    and "distinct (clients st)"
  shows "(let st' = handleVehicleMessage env socket data t_connect t_ack st;
              connected = JObj [(''vin'', JStr v), (''connectionId'', JStr []),
                                (''status'', JStr ''CONNECTED''), (''timestamp'', JStr t_connect)]
          in (\<forall>c\<in>set (clients st). readyState st c = OPEN \<longrightarrow>
                received c (effects st st') =
                  (if map_has (vehicleConnections st) v then []
                   else [JSON_stringify env connected]) @ [JSON_stringify env m]) \<and>
             (clients st \<noteq> [] \<longrightarrow>
                serialisations (effects st st') =
                  (if map_has (vehicleConnections st) v then [] else [connected]) @ [m]) \<and>
             (WARN, ''Received unknown message type from VIN='' @ v)
               \<in> set (diagnostics (effects st st')))"
proof -
  from assms(3) obtain kvs where m: "m = JObj kvs" by (cases m) simp_all
  from assms(4) have c: "\<not> in_and_isArray ''data'' m" "\<not> in_and_isArray ''errors'' m"
    "\<not> in_and_isArray ''alerts'' m"
    by (simp_all add: classify_def del: in_and_isArray.simps split: if_splits)
  have n1: "\<not> js_in ''data'' m" using c(1) assms(5) m by auto
  have n2: "\<not> js_in ''errors'' m" using c(2) assms(6) m by auto
  have n3: "\<not> js_in ''alerts'' m" using c(3) assms(7) m by auto
  let ?con = "JObj [(''vin'', JStr v), (''connectionId'', JStr []),
                    (''status'', JStr ''CONNECTED''), (''timestamp'', JStr t_connect)]"
  let ?idp = "if map_has (vehicleConnections st) v then []
              else Log INFO (''Vehicle identified: VIN='' @ v) # fanout env st ?con"
  obtain l s where h0:
    "handleVehicleMessage env socket data t_connect t_ack st =
       sendAcknowledgment env socket m t_ack
         (processMessage env m
            (emit (Log l s # ?idp @ [Log WARN (''Received unknown message type from VIN='' @ v)])
               (st\<lparr>vehicleConnections :=
                     (if map_has (vehicleConnections st) v then vehicleConnections st
                      else map_set (vehicleConnections st) v socket)\<rparr>)))"
    using handleVehicleMessage_steps [OF assms(1-3), of socket t_connect t_ack] assms(4)
    by (auto dest: is_log_cases)
  have p: "\<exists>d. is_log d \<and> processMessage env m st0 = emit (d # fanout env st0 m) st0" for st0
    using assms(3) n1 n2 n3 assms(8) by (rule processMessage_no_shape)
  let ?st2 = "emit (Log l s # ?idp @ [Log WARN (''Received unknown message type from VIN='' @ v)])
               (st\<lparr>vehicleConnections :=
                     (if map_has (vehicleConnections st) v then vehicleConnections st
                      else map_set (vehicleConnections st) v socket)\<rparr>)"
  from p [of ?st2] obtain l' s' where p': "processMessage env m ?st2 =
      emit (Log l' s' # fanout env ?st2 m) ?st2"
    by (auto dest: is_log_cases)
  have f: "fanout env ?st2 m = fanout env st m" by simp
  have na: "\<not> isTelemetryDataMessage m" using n1 by (simp add: isTelemetryDataMessage_def)
  have h: "handleVehicleMessage env socket data t_connect t_ack st =
      emit (Log l s # ?idp @ [Log WARN (''Received unknown message type from VIN='' @ v),
              Log l' s'] @ fanout env st m)
        (st\<lparr>vehicleConnections :=
              (if map_has (vehicleConnections st) v then vehicleConnections st
               else map_set (vehicleConnections st) v socket)\<rparr>)"
    unfolding h0 p' f using na by (simp add: sendAcknowledgment_emit [OF assms(3)])
  have rc: "received c (fanout env st x) = [JSON_stringify env x]"
    if "c \<in> set (clients st)" "readyState st c = OPEN" for c x
    using that by (simp add: received_fanout_open [OF assms(9)] open_clients_def)
  show ?thesis
    unfolding Let_def
    apply (intro conjI ballI impI)
    subgoal for c by (simp add: h rc)
    subgoal by (simp add: h serialisations_fanout_eq)
    subgoal by (simp add: h)
    done
qed

theorem unknown_message_forwarded_witness:
  "PayloadType demo_registered \<and>
   fst (decode_frame vin_only_env (Buffer frame_V1) demo_registered) =
     Some (JObj [(''vin'', JStr ''V1'')]) \<and>
   get_prop (JObj [(''vin'', JStr ''V1'')]) ''vin'' = Some (JStr ''V1'') \<and>
   classify (JObj [(''vin'', JStr ''V1'')]) = UnknownMessage \<and>
   distinct (clients demo_registered) \<and> clients demo_registered = [5, 6] \<and>
   readyState demo_registered 5 = OPEN \<and> map_has (vehicleConnections demo_registered) ''V1'' \<and>
   received 5 (effects demo_registered
       (handleVehicleMessage vin_only_env 1 (Buffer frame_V1) ''T0'' ''T2'' demo_registered)) =
     [JSON_stringify vin_only_env (JObj [(''vin'', JStr ''V1'')])] \<and>
   serialisations (effects demo_registered
       (handleVehicleMessage vin_only_env 1 (Buffer frame_V1) ''T0'' ''T2'' demo_registered)) =
     [JObj [(''vin'', JStr ''V1'')]] \<and>
   (WARN, ''Received unknown message type from VIN=V1'')
     \<in> set (diagnostics (effects demo_registered
         (handleVehicleMessage vin_only_env 1 (Buffer frame_V1) ''T0'' ''T2'' demo_registered)))"
proof -
  let ?m = "JObj [(''vin'', JStr ''V1'')]"
  have h1: "PayloadType demo_registered" by (simp add: demo_registered_def demo_state_def)
  have h2: "fst (decode_frame vin_only_env (Buffer frame_V1) demo_registered) = Some ?m"
    by (simp add: decode_frame_def vin_only_env_def schema_decode_def)
  have h3: "get_prop ?m ''vin'' = Some (JStr ''V1'')" by simp
  have h4: "classify ?m = UnknownMessage" by (simp add: classify_def)
  have h5: "get_prop ?m ''data'' = None \<or> (\<exists>xs. get_prop ?m ''data'' = Some (JArr xs))" by simp
  have h6: "get_prop ?m ''errors'' = None \<or> (\<exists>xs. get_prop ?m ''errors'' = Some (JArr xs))"
    by simp
  have h7: "get_prop ?m ''alerts'' = None \<or> (\<exists>xs. get_prop ?m ''alerts'' = Some (JArr xs))"
    by simp
  have h8: "get_prop ?m ''status'' = None \<or> typeof_string (get_prop ?m ''status'')" by simp
  have cl: "clients demo_registered = [5, 6]" by (simp add: demo_registered_def demo_state_def)
  have h9: "distinct (clients demo_registered)" by (simp add: cl)
  have r5: "readyState demo_registered 5 = OPEN" by (simp add: demo_registered_def demo_state_def)
  have mh: "map_has (vehicleConnections demo_registered) ''V1''"
    by (simp add: demo_registered_def map_has_def)
  show ?thesis
    using unknown_message_forwarded [OF h1 h2 h3 h4 h5 h6 h7 h8 h9, of 1 "''T0''" "''T2''"]
      h1 h2 h4 h9 r5 mh
    by (simp add: Let_def cl)
qed

section \<open>Routing of upgrade requests\<close>


lemma only_logs_refl: "only_logs st st"
  unfolding only_logs_def by (rule exI [of _ "[]"]) simp

lemma only_logs_logger: "only_logs st st' \<Longrightarrow> only_logs st (logger l s st')"
  unfolding only_logs_def logger_def
  apply (elim exE conjE)
  subgoal for logs by (rule exI [of _ "logs @ [Log l s]"]) simp
  done

lemma extractToken_only_logs: "only_logs st (snd (extractToken env r st))"
  by (simp add: extractToken_def only_logs_refl only_logs_logger
        split: option.splits sum.splits)

lemma extractToken_fst: "fst (extractToken env r st) = fst (extractToken env r st')"
  by (simp add: extractToken_def split: option.splits sum.splits)

lemma verifyToken_only_logs: "only_logs st st1 \<Longrightarrow> only_logs st (snd (verifyToken env t st1))"
  by (simp add: verifyToken_def Let_def only_logs_logger split: sum.splits)

lemma verifyToken_fst: "fst (verifyToken env t st) = fst (verifyToken env t st')"
  by (simp add: verifyToken_def Let_def split: sum.splits)

lemma authenticate_only_logs:
  "only_logs st (snd (authenticateWebSocketRequest env r st))"
proof -
  have e: "only_logs st (snd (extractToken env r st))" by (rule extractToken_only_logs)
  show ?thesis
    unfolding authenticateWebSocketRequest_def
    by (cases "extractToken env r st"; cases "fst (extractToken env r st)";
        cases "verifyToken env (the (fst (extractToken env r st))) (snd (extractToken env r st))";
        cases "fst (verifyToken env (the (fst (extractToken env r st))) (snd (extractToken env r st)))")
       (use e verifyToken_only_logs [OF e, of env "the (fst (extractToken env r st))"]
         in \<open>auto intro: only_logs_logger\<close>)
qed

lemma authenticate_fst:
  "fst (authenticateWebSocketRequest env r st) = fst (authenticateWebSocketRequest env r st')"
proof -
  have e: "fst (extractToken env r st) = fst (extractToken env r st')" by (rule extractToken_fst)
  have v: "fst (verifyToken env t (snd (extractToken env r st))) =
           fst (verifyToken env t (snd (extractToken env r st')))" for t
    by (rule verifyToken_fst)
  show ?thesis
    unfolding authenticateWebSocketRequest_def
    using e v
    by (auto simp: case_prod_beta split: option.splits)
qed


lemma set_add_set [simp]: "set (set_add x xs) = insert x (set xs)"
  by (auto simp: set_add_def)

lemma request_pathname_credentials [simp]:
  "request_pathname (env\<lparr>jwt_verify := v, JWT_SECRET := k\<rparr>) (request\<lparr>authorization := a\<rparr>) =
   request_pathname env request"
  by (simp add: request_pathname_def base_url_def split: option.splits)

lemma upgrade_stream:
  assumes "request_pathname env request = Inr ''/stream''"
  shows "\<exists>logs. list_all is_log logs \<and>
     upgrade env request socket now st =
       (case fst (authenticateWebSocketRequest env request st) of
          None \<Rightarrow>
            emit (Log DEBUG ''Client WebSocket connection attempt to /stream'' # logs @
                  [Log WARN (''Client authentication failed, rejecting WebSocket connection from '' @
                     remoteAddress request),
                   SocketWrite socket (''HTTP/1.1 401 Unauthorized'' @ CRLF @ CRLF),
                   SocketDestroy socket]) st
        | Some auth \<Rightarrow>
            (case handshake request of
               Some status \<Rightarrow>
                 emit (Log DEBUG ''Client WebSocket connection attempt to /stream'' # logs @
                       [AbortHandshake socket status]) st
             | None \<Rightarrow>
                 (emit (Log DEBUG ''Client WebSocket connection attempt to /stream'' # logs @
                        [Log INFO (''Client connected: '' @ remoteAddress request @
                           '', total clients: '' @
                           string_of_nat (length (set_add socket (clients st)))),
                         Stringify (welcome_message now),
                         Send socket (JSON_stringify env (welcome_message now))]) st)
                   \<lparr>clients := set_add socket (clients st),
                    listeners := (listeners st)(socket := Some (ClientListeners request)),
                    readyState := (readyState st)(socket := OPEN),
                    isAlive := (isAlive st)(socket := None),
                    authData := (authData st)(socket := Some auth)\<rparr>))"
proof -
  let ?st0 = "emit [Log DEBUG ''Client WebSocket connection attempt to /stream''] st"
  have "only_logs ?st0 (snd (authenticateWebSocketRequest env request ?st0))"
    by (rule authenticate_only_logs)
  then obtain logs where logs: "snd (authenticateWebSocketRequest env request ?st0) = emit logs ?st0"
    "list_all is_log logs" unfolding only_logs_def by blast
  have f: "fst (authenticateWebSocketRequest env request ?st0) =
           fst (authenticateWebSocketRequest env request st)"
    by (rule authenticate_fst)
  have u: "upgrade env request socket now st = clientServer_handleUpgrade env request socket now ?st0"
    using assms by (simp add: upgrade_def logger_def)
  show ?thesis
  proof (cases "fst (authenticateWebSocketRequest env request st)")
    case None
    with f logs have a: "authenticateWebSocketRequest env request ?st0 = (None, emit logs ?st0)"
      by (metis prod.collapse)
    show ?thesis
      by (rule exI [of _ logs]) (simp add: u None logs(2) clientServer_handleUpgrade_def a)
  next
    case (Some auth)
    with f logs have a: "authenticateWebSocketRequest env request ?st0 = (Some auth, emit logs ?st0)"
      by (metis prod.collapse)
    show ?thesis
    proof (cases "handshake request")
      case refused: (Some status)
      show ?thesis
        by (rule exI [of _ logs])
           (simp add: u Some refused logs(2) clientServer_handleUpgrade_def a ws_handleUpgrade_def)
    next
      case None
      show ?thesis
        by (rule exI [of _ logs])
           (simp add: u Some None logs(2) clientServer_handleUpgrade_def a ws_handleUpgrade_def
              client_connection_def sendToClient_def ws_completeUpgrade_def logger_def Let_def)
    qed
  qed
qed

lemma upgrade_root:
  assumes "request_pathname env request = Inr ''/''"
  shows "upgrade env request socket now st =
       (case handshake request of
          Some status \<Rightarrow>
            emit [Log DEBUG ''Vehicle WebSocket connection attempt to /'',
                  AbortHandshake socket status] st
        | None \<Rightarrow>
            (emit [Log DEBUG ''Vehicle WebSocket connection attempt to /'',
                   Log INFO (''Vehicle connected from: '' @ remoteAddress request),
                   Log DEBUG ''No client certificate validation (mTLS not enabled)''] st)
              \<lparr>listeners := (listeners st)(socket := Some VehicleListeners),
               readyState := (readyState st)(socket := OPEN),
               isAlive := (isAlive st)(socket := None),
               authData := (authData st)(socket := None)\<rparr>)"
  using assms
  by (simp add: upgrade_def telemetryServer_handleUpgrade_def handleVehicleConnection_def
        ws_handleUpgrade_def ws_completeUpgrade_def logger_def Let_def split: option.splits)

text \<open>
  C1 as the specification states it fails for two kinds of request. The listener computes
  the path with \<^verbatim>\<open>new URL\<close>, which throws on the target \<^verbatim>\<open>//\<close>: the request is answered
  with the 500 response of the \<^verbatim>\<open>catch\<close> block, not with 404, and nothing is admitted. And
  a request to \<^verbatim>\<open>/\<close> whose handshake the library refuses (here with status 400) is not
  admitted as a producer: the socket gets no listener.
\<close>

theorem unparsed_target_counterexample:
  "url (demo_request ''//'') = Some ''//'' \<and>
   request_pathname demo_env (demo_request ''//'') = Inl ''Invalid URL'' \<and>
   effects startup (upgrade demo_env (demo_request ''//'') 7 ''T0'' startup) =
     [Log ERROR ''Error handling WebSocket upgrade: Invalid URL'',
      SocketWrite 7 (''HTTP/1.1 500 Internal Server Error'' @ CRLF @ CRLF), SocketDestroy 7] \<and>
   transport (effects startup (upgrade demo_env (demo_request ''//'') 7 ''T0'' startup)) \<noteq>
     [SocketWrite 7 (''HTTP/1.1 404 Not Found'' @ CRLF @ CRLF), SocketDestroy 7] \<and>
   clients (upgrade demo_env (demo_request ''//'') 7 ''T0'' startup) = [] \<and>
   listeners (upgrade demo_env (demo_request ''//'') 7 ''T0'' startup) 7 = None \<and>
   request_pathname demo_env ((demo_request ''/'')\<lparr>handshake := Some 400\<rparr>) = Inr ''/'' \<and>
   listeners (upgrade demo_env ((demo_request ''/'')\<lparr>handshake := Some 400\<rparr>) 1 ''T0'' startup) 1 =
     None \<and>
   effects startup (upgrade demo_env ((demo_request ''/'')\<lparr>handshake := Some 400\<rparr>) 1 ''T0'' startup) =
     [Log DEBUG ''Vehicle WebSocket connection attempt to /'', AbortHandshake 1 400]"
  by code_simp

text \<open>
  C1, as the code has it. When the path name of the request is defined: on \<^verbatim>\<open>/stream\<close> the
  outcome is that of the token gate \<^verbatim>\<open>authenticateWebSocketRequest\<close>. When it returns claims
  and the library completes the handshake, the socket joins the subscriber set, carries
  the subscriber listeners and is sent the welcome message
  \<^verbatim>\<open>{type: 'connection_status', connected: true, timestamp, message}\<close>, and nothing else is
  sent and no transport is refused; when it returns claims and the library aborts the
  handshake, the state changes by its trace only, nothing is sent, and the one operation
  on a transport is the abort. When the gate returns none the state changes by its trace
  only, in which the transport is written the 401 response and destroyed, and nothing is
  sent. On \<^verbatim>\<open>/\<close> the socket gets the producer listeners after three diagnostics when the
  library completes the handshake, the subscriber set is unchanged and no transport is
  refused; when the library aborts the handshake that is all that happens; and either
  way the outcome is the same whatever the authorization header, the verifier and the
  secret are. On any other path the transport is written the 404 response and destroyed,
  after a warning, and nothing else changes. When the path name is not defined, because
  \<^verbatim>\<open>new URL\<close> throws, the transport is written the 500 response and destroyed, after the
  error is logged, and nothing else changes.
\<close>

theorem upgrade_routed_by_path:
   "(request_pathname env request = Inr ''/stream'' \<and>
     fst (authenticateWebSocketRequest env request st) \<noteq> None \<and> handshake request = None \<longrightarrow>
       set (clients (upgrade env request socket now st)) = insert socket (set (clients st)) \<and>
       listeners (upgrade env request socket now st) socket = Some (ClientListeners request) \<and>
       deliveries (effects st (upgrade env request socket now st)) =
         [(socket, JSON_stringify env
             (JObj [(''type'', JStr ''connection_status''), (''connected'', JBool True),
                    (''timestamp'', JStr now),
                    (''message'', JStr ''Connected to Tesla Telemetry Server'')]))] \<and>
       transport (effects st (upgrade env request socket now st)) = []) \<and>
    (request_pathname env request = Inr ''/stream'' \<and>
     fst (authenticateWebSocketRequest env request st) \<noteq> None \<and>
     handshake request = Some status \<longrightarrow>
       upgrade env request socket now st = emit (effects st (upgrade env request socket now st)) st \<and>
       deliveries (effects st (upgrade env request socket now st)) = [] \<and>
       transport (effects st (upgrade env request socket now st)) =
         [AbortHandshake socket status]) \<and>
    (request_pathname env request = Inr ''/stream'' \<and>
     fst (authenticateWebSocketRequest env request st) = None \<longrightarrow>
       upgrade env request socket now st = emit (effects st (upgrade env request socket now st)) st \<and>
       clients (upgrade env request socket now st) = clients st \<and>
       deliveries (effects st (upgrade env request socket now st)) = [] \<and>
       transport (effects st (upgrade env request socket now st)) =
         [SocketWrite socket (''HTTP/1.1 401 Unauthorized'' @ CRLF @ CRLF), SocketDestroy socket]) \<and>
    (request_pathname env request = Inr ''/'' \<and> handshake request = None \<longrightarrow>
       upgrade env request socket now st =
         (emit [Log DEBUG ''Vehicle WebSocket connection attempt to /'',
                Log INFO (''Vehicle connected from: '' @ remoteAddress request),
                Log DEBUG ''No client certificate validation (mTLS not enabled)'']
            (ws_completeUpgrade socket st))
           \<lparr>listeners := (listeners st)(socket := Some VehicleListeners)\<rparr> \<and>
       clients (upgrade env request socket now st) = clients st \<and>
       listeners (upgrade env request socket now st) socket = Some VehicleListeners \<and>
       transport (effects st (upgrade env request socket now st)) = []) \<and>
    (request_pathname env request = Inr ''/'' \<and> handshake request = Some status \<longrightarrow>
       upgrade env request socket now st =
         emit [Log DEBUG ''Vehicle WebSocket connection attempt to /'',
               AbortHandshake socket status] st) \<and>
    (request_pathname env request = Inr ''/'' \<longrightarrow>
       upgrade (env\<lparr>jwt_verify := v, JWT_SECRET := k\<rparr>) (request\<lparr>authorization := a\<rparr>)
           socket now st = upgrade env request socket now st) \<and>
    (request_pathname env request = Inr path \<and> path \<noteq> ''/stream'' \<and> path \<noteq> ''/'' \<longrightarrow>
       upgrade env request socket now st =
         emit [Log WARN (''WebSocket connection attempt to invalid path: '' @ path),
               SocketWrite socket (''HTTP/1.1 404 Not Found'' @ CRLF @ CRLF),
               SocketDestroy socket] st) \<and>
    (request_pathname env request = Inl message \<longrightarrow>
       upgrade env request socket now st =
         emit [Log ERROR (''Error handling WebSocket upgrade: '' @ message),
               SocketWrite socket (''HTTP/1.1 500 Internal Server Error'' @ CRLF @ CRLF),
               SocketDestroy socket] st)"
proof -
  let ?u = "upgrade env request socket now st"
  let ?hello = "JObj [(''type'', JStr ''connection_status''), (''connected'', JBool True),
                    (''timestamp'', JStr now),
                    (''message'', JStr ''Connected to Tesla Telemetry Server'')]"
  have w: "welcome_message now = ?hello" by (simp add: welcome_message_def)
  have b1: "request_pathname env request = Inr ''/stream'' \<and>
     fst (authenticateWebSocketRequest env request st) \<noteq> None \<and> handshake request = None \<longrightarrow>
       set (clients ?u) = insert socket (set (clients st)) \<and>
       listeners ?u socket = Some (ClientListeners request) \<and>
       deliveries (effects st ?u) = [(socket, JSON_stringify env ?hello)] \<and>
       transport (effects st ?u) = []"
  proof (intro impI, elim conjE)
    assume p: "request_pathname env request = Inr ''/stream''"
      and "fst (authenticateWebSocketRequest env request st) \<noteq> None"
      and h: "handshake request = None"
    then obtain auth where a: "fst (authenticateWebSocketRequest env request st) = Some auth"
      by blast
    from upgrade_stream [OF p, of socket now st] obtain logs where
      "list_all is_log logs" and
      "?u = (emit (Log DEBUG ''Client WebSocket connection attempt to /stream'' # logs @
                        [Log INFO (''Client connected: '' @ remoteAddress request @
                           '', total clients: '' @
                           string_of_nat (length (set_add socket (clients st)))),
                         Stringify ?hello,
                         Send socket (JSON_stringify env ?hello)]) st)
                   \<lparr>clients := set_add socket (clients st),
                    listeners := (listeners st)(socket := Some (ClientListeners request)),
                    readyState := (readyState st)(socket := OPEN),
                    isAlive := (isAlive st)(socket := None),
                    authData := (authData st)(socket := Some auth)\<rparr>"
      unfolding a h w by auto
    then show "set (clients ?u) = insert socket (set (clients st)) \<and>
       listeners ?u socket = Some (ClientListeners request) \<and>
       deliveries (effects st ?u) = [(socket, JSON_stringify env ?hello)] \<and>
       transport (effects st ?u) = []"
      by (simp add: effects_def)
  qed
  have b2: "request_pathname env request = Inr ''/stream'' \<and>
     fst (authenticateWebSocketRequest env request st) \<noteq> None \<and>
     handshake request = Some status \<longrightarrow>
       ?u = emit (effects st ?u) st \<and> deliveries (effects st ?u) = [] \<and>
       transport (effects st ?u) = [AbortHandshake socket status]"
  proof (intro impI, elim conjE)
    assume p: "request_pathname env request = Inr ''/stream''"
      and "fst (authenticateWebSocketRequest env request st) \<noteq> None"
      and h: "handshake request = Some status"
    then obtain auth where a: "fst (authenticateWebSocketRequest env request st) = Some auth"
      by blast
    from upgrade_stream [OF p, of socket now st] obtain logs where
      "list_all is_log logs" and
      "?u = emit (Log DEBUG ''Client WebSocket connection attempt to /stream'' # logs @
                       [AbortHandshake socket status]) st"
      unfolding a h by auto
    then show "?u = emit (effects st ?u) st \<and> deliveries (effects st ?u) = [] \<and>
       transport (effects st ?u) = [AbortHandshake socket status]"
      by simp
  qed
  have b3: "request_pathname env request = Inr ''/stream'' \<and>
     fst (authenticateWebSocketRequest env request st) = None \<longrightarrow>
       ?u = emit (effects st ?u) st \<and> clients ?u = clients st \<and>
       deliveries (effects st ?u) = [] \<and>
       transport (effects st ?u) =
         [SocketWrite socket (''HTTP/1.1 401 Unauthorized'' @ CRLF @ CRLF), SocketDestroy socket]"
  proof (intro impI, elim conjE)
    assume p: "request_pathname env request = Inr ''/stream''"
      and a: "fst (authenticateWebSocketRequest env request st) = None"
    from upgrade_stream [OF p, of socket now st] obtain logs where
      "list_all is_log logs" and
      "?u = emit (Log DEBUG ''Client WebSocket connection attempt to /stream'' # logs @
                  [Log WARN (''Client authentication failed, rejecting WebSocket connection from '' @
                     remoteAddress request),
                   SocketWrite socket (''HTTP/1.1 401 Unauthorized'' @ CRLF @ CRLF),
                   SocketDestroy socket]) st"
      unfolding a by auto
    then show "?u = emit (effects st ?u) st \<and> clients ?u = clients st \<and>
       deliveries (effects st ?u) = [] \<and>
       transport (effects st ?u) =
         [SocketWrite socket (''HTTP/1.1 401 Unauthorized'' @ CRLF @ CRLF), SocketDestroy socket]"
      by simp
  qed
  have b4: "request_pathname env request = Inr ''/'' \<and> handshake request = None \<longrightarrow>
       ?u =
         (emit [Log DEBUG ''Vehicle WebSocket connection attempt to /'',
                Log INFO (''Vehicle connected from: '' @ remoteAddress request),
                Log DEBUG ''No client certificate validation (mTLS not enabled)'']
            (ws_completeUpgrade socket st))
           \<lparr>listeners := (listeners st)(socket := Some VehicleListeners)\<rparr> \<and>
       clients ?u = clients st \<and>
       listeners ?u socket = Some VehicleListeners \<and>
       transport (effects st ?u) = []"
  proof (intro impI, elim conjE)
    assume p: "request_pathname env request = Inr ''/''" and h: "handshake request = None"
    show "?u =
         (emit [Log DEBUG ''Vehicle WebSocket connection attempt to /'',
                Log INFO (''Vehicle connected from: '' @ remoteAddress request),
                Log DEBUG ''No client certificate validation (mTLS not enabled)'']
            (ws_completeUpgrade socket st))
           \<lparr>listeners := (listeners st)(socket := Some VehicleListeners)\<rparr> \<and>
       clients ?u = clients st \<and>
       listeners ?u socket = Some VehicleListeners \<and>
       transport (effects st ?u) = []"
      unfolding upgrade_root [OF p] h
      by (simp add: ws_completeUpgrade_def effects_def)
  qed
  have b5: "request_pathname env request = Inr ''/'' \<and> handshake request = Some status \<longrightarrow>
       ?u = emit [Log DEBUG ''Vehicle WebSocket connection attempt to /'',
                  AbortHandshake socket status] st"
  proof (intro impI, elim conjE)
    assume p: "request_pathname env request = Inr ''/''" and h: "handshake request = Some status"
    show "?u = emit [Log DEBUG ''Vehicle WebSocket connection attempt to /'',
                     AbortHandshake socket status] st"
      unfolding upgrade_root [OF p] h by simp
  qed
  have b6: "request_pathname env request = Inr ''/'' \<longrightarrow>
       upgrade (env\<lparr>jwt_verify := v, JWT_SECRET := k\<rparr>) (request\<lparr>authorization := a\<rparr>)
           socket now st = ?u"
  proof
    assume p: "request_pathname env request = Inr ''/''"
    then have p': "request_pathname (env\<lparr>jwt_verify := v, JWT_SECRET := k\<rparr>)
        (request\<lparr>authorization := a\<rparr>) = Inr ''/''"
      by simp
    show "upgrade (env\<lparr>jwt_verify := v, JWT_SECRET := k\<rparr>) (request\<lparr>authorization := a\<rparr>)
           socket now st = ?u"
      unfolding upgrade_root [OF p] upgrade_root [OF p'] by (simp split: option.splits)
  qed
  have b7: "request_pathname env request = Inr path \<and> path \<noteq> ''/stream'' \<and> path \<noteq> ''/'' \<longrightarrow>
       ?u = emit [Log WARN (''WebSocket connection attempt to invalid path: '' @ path),
               SocketWrite socket (''HTTP/1.1 404 Not Found'' @ CRLF @ CRLF),
               SocketDestroy socket] st"
    by (simp add: upgrade_def)
  have b8: "request_pathname env request = Inl message \<longrightarrow>
       ?u = emit [Log ERROR (''Error handling WebSocket upgrade: '' @ message),
               SocketWrite socket (''HTTP/1.1 500 Internal Server Error'' @ CRLF @ CRLF),
               SocketDestroy socket] st"
    by (simp add: upgrade_def)
  show ?thesis
    by (rule conjI [OF b1 conjI [OF b2 conjI [OF b3 conjI [OF b4 conjI [OF b5
          conjI [OF b6 conjI [OF b7 b8]]]]]]])
qed

theorem upgrade_routed_by_path_witness:
  "request_pathname demo_env (demo_request ''/stream?token=good'') = Inr ''/stream'' \<and>
   fst (authenticateWebSocketRequest demo_env (demo_request ''/stream?token=good'') startup) \<noteq> None \<and>
   handshake (demo_request ''/stream?token=good'') = None \<and>
   set (clients (upgrade demo_env (demo_request ''/stream?token=good'') 5 ''T0'' startup)) = {5} \<and>
   deliveries (effects startup
       (upgrade demo_env (demo_request ''/stream?token=good'') 5 ''T0'' startup)) =
     [(5, JSON_stringify demo_env
        (JObj [(''type'', JStr ''connection_status''), (''connected'', JBool True),
               (''timestamp'', JStr ''T0''),
               (''message'', JStr ''Connected to Tesla Telemetry Server'')]))] \<and>
   fst (authenticateWebSocketRequest demo_env
     ((demo_request ''/stream'')\<lparr>authorization := Some ''Bearer good''\<rparr>) startup) \<noteq> None \<and>
   set (clients (upgrade demo_env
     ((demo_request ''/stream'')\<lparr>authorization := Some ''Bearer good''\<rparr>) 5 ''T0'' startup)) = {5} \<and>
   transport (effects startup
       (upgrade demo_env ((demo_request ''/stream?token=good'')\<lparr>handshake := Some 400\<rparr>)
          5 ''T0'' startup)) = [AbortHandshake 5 400] \<and>
   request_pathname demo_env (demo_request ''/stream?token=bad'') = Inr ''/stream'' \<and>
   fst (authenticateWebSocketRequest demo_env (demo_request ''/stream?token=bad'') startup) = None \<and>
   clients (upgrade demo_env (demo_request ''/stream?token=bad'') 5 ''T0'' startup) = [] \<and>
   transport (effects startup
       (upgrade demo_env (demo_request ''/stream?token=bad'') 5 ''T0'' startup)) =
     [SocketWrite 5 (''HTTP/1.1 401 Unauthorized'' @ CRLF @ CRLF), SocketDestroy 5] \<and>
   request_pathname demo_env (demo_request ''/'') = Inr ''/'' \<and>
   listeners (upgrade demo_env (demo_request ''/'') 1 ''T0'' startup) 1 = Some VehicleListeners \<and>
   clients (upgrade demo_env (demo_request ''/'') 1 ''T0'' startup) = [] \<and>
   upgrade demo_env ((demo_request ''/'')\<lparr>handshake := Some 400\<rparr>) 1 ''T0'' startup =
     emit [Log DEBUG ''Vehicle WebSocket connection attempt to /'', AbortHandshake 1 400] startup \<and>
   request_pathname demo_env (demo_request ''/metrics'') = Inr ''/metrics'' \<and>
   upgrade demo_env (demo_request ''/metrics'') 7 ''T0'' startup =
     emit [Log WARN ''WebSocket connection attempt to invalid path: /metrics'',
           SocketWrite 7 (''HTTP/1.1 404 Not Found'' @ CRLF @ CRLF), SocketDestroy 7] startup \<and>
   request_pathname demo_env (demo_request ''//'') = Inl ''Invalid URL'' \<and>
   upgrade demo_env (demo_request ''//'') 7 ''T0'' startup =
     emit [Log ERROR ''Error handling WebSocket upgrade: Invalid URL'',
           SocketWrite 7 (''HTTP/1.1 500 Internal Server Error'' @ CRLF @ CRLF),
           SocketDestroy 7] startup"
proof -
  let ?good = "demo_request ''/stream?token=good''"
  let ?bearer = "(demo_request ''/stream'')\<lparr>authorization := Some ''Bearer good''\<rparr>"
  let ?refused = "(demo_request ''/stream?token=good'')\<lparr>handshake := Some 400\<rparr>"
  let ?root_refused = "(demo_request ''/'')\<lparr>handshake := Some 400\<rparr>"
  have p1: "request_pathname demo_env ?good = Inr ''/stream''"
    by (simp add: request_pathname_def demo_request_def demo_env_def demo_URL_def base_url_def)
  have p1b: "request_pathname demo_env ?bearer = Inr ''/stream''"
    by (simp add: request_pathname_def demo_request_def demo_env_def demo_URL_def base_url_def)
  have p1r: "request_pathname demo_env ?refused = Inr ''/stream''"
    by (simp add: request_pathname_def demo_request_def demo_env_def demo_URL_def base_url_def)
  have p2: "request_pathname demo_env (demo_request ''/stream?token=bad'') = Inr ''/stream''"
    by (simp add: request_pathname_def demo_request_def demo_env_def demo_URL_def base_url_def)
  have p3: "request_pathname demo_env (demo_request ''/'') = Inr ''/''"
    by (simp add: request_pathname_def demo_request_def demo_env_def demo_URL_def base_url_def)
  have p3r: "request_pathname demo_env ?root_refused = Inr ''/''"
    by (simp add: request_pathname_def demo_request_def demo_env_def demo_URL_def base_url_def)
  have p4: "request_pathname demo_env (demo_request ''/metrics'') = Inr ''/metrics''"
    by (simp add: request_pathname_def demo_request_def demo_env_def demo_URL_def base_url_def)
  have p5: "request_pathname demo_env (demo_request ''//'') = Inl ''Invalid URL''"
    by (simp add: request_pathname_def demo_request_def demo_env_def demo_URL_def base_url_def)
  have a1: "fst (authenticateWebSocketRequest demo_env ?good startup) \<noteq> None"
    by (simp add: authenticateWebSocketRequest_def extractToken_def verifyToken_def
          demo_request_def demo_env_def demo_URL_def demo_verify_def base_url_def Let_def)
  have a1b: "fst (authenticateWebSocketRequest demo_env ?bearer startup) \<noteq> None"
    by (simp add: authenticateWebSocketRequest_def extractToken_def verifyToken_def bearer_token_def
          demo_request_def demo_env_def demo_URL_def demo_verify_def base_url_def Let_def)
  have a1r: "fst (authenticateWebSocketRequest demo_env ?refused startup) \<noteq> None"
    by (simp add: authenticateWebSocketRequest_def extractToken_def verifyToken_def
          demo_request_def demo_env_def demo_URL_def demo_verify_def base_url_def Let_def)
  have a2: "fst (authenticateWebSocketRequest demo_env (demo_request ''/stream?token=bad'') startup)
      = None"
    by (simp add: authenticateWebSocketRequest_def extractToken_def verifyToken_def
          demo_request_def demo_env_def demo_URL_def demo_verify_def base_url_def Let_def)
  have h1: "handshake ?good = None" by (simp add: demo_request_def)
  have h1b: "handshake ?bearer = None" by (simp add: demo_request_def)
  have h1r: "handshake ?refused = Some 400" by simp
  have h3: "handshake (demo_request ''/'') = None" by (simp add: demo_request_def)
  have h3r: "handshake ?root_refused = Some 400" by simp
  have s: "clients startup = []" by (simp add: startup_def)
  from upgrade_routed_by_path [where env = demo_env and request = "?good" and st = startup
      and socket = 5 and now = "''T0''"] p1 a1 h1 s
  have c1: "set (clients (upgrade demo_env ?good 5 ''T0'' startup)) = {5} \<and>
   deliveries (effects startup (upgrade demo_env ?good 5 ''T0'' startup)) =
     [(5, JSON_stringify demo_env
        (JObj [(''type'', JStr ''connection_status''), (''connected'', JBool True),
               (''timestamp'', JStr ''T0''),
               (''message'', JStr ''Connected to Tesla Telemetry Server'')]))]"
    by simp
  from upgrade_routed_by_path [where env = demo_env and request = "?bearer" and st = startup
      and socket = 5 and now = "''T0''"] p1b a1b h1b s
  have c1b: "set (clients (upgrade demo_env ?bearer 5 ''T0'' startup)) = {5}"
    by simp
  from upgrade_routed_by_path [where env = demo_env and request = "?refused" and st = startup
      and socket = 5 and now = "''T0''" and status = 400] p1r a1r h1r
  have c1r: "transport (effects startup (upgrade demo_env ?refused 5 ''T0'' startup)) =
      [AbortHandshake 5 400]"
    by blast
  from upgrade_routed_by_path [where env = demo_env
      and request = "demo_request ''/stream?token=bad''" and st = startup
      and socket = 5 and now = "''T0''"] p2 a2 s
  have c2: "clients (upgrade demo_env (demo_request ''/stream?token=bad'') 5 ''T0'' startup) = [] \<and>
   transport (effects startup
       (upgrade demo_env (demo_request ''/stream?token=bad'') 5 ''T0'' startup)) =
     [SocketWrite 5 (''HTTP/1.1 401 Unauthorized'' @ CRLF @ CRLF), SocketDestroy 5]"
    by simp
  from upgrade_routed_by_path [where env = demo_env and request = "demo_request ''/''"
      and st = startup and socket = 1 and now = "''T0''"] p3 h3
  have "listeners (upgrade demo_env (demo_request ''/'') 1 ''T0'' startup) 1 = Some VehicleListeners \<and>
   clients (upgrade demo_env (demo_request ''/'') 1 ''T0'' startup) = clients startup"
    by blast
  with s
  have c3: "listeners (upgrade demo_env (demo_request ''/'') 1 ''T0'' startup) 1 = Some VehicleListeners \<and>
   clients (upgrade demo_env (demo_request ''/'') 1 ''T0'' startup) = []"
    by simp
  from upgrade_routed_by_path [where env = demo_env and request = "?root_refused"
      and st = startup and socket = 1 and now = "''T0''" and status = 400] p3r h3r
  have c3r: "upgrade demo_env ?root_refused 1 ''T0'' startup =
     emit [Log DEBUG ''Vehicle WebSocket connection attempt to /'', AbortHandshake 1 400] startup"
    by blast
  from upgrade_routed_by_path [where env = demo_env and request = "demo_request ''/metrics''"
      and st = startup and socket = 7 and now = "''T0''" and path = "''/metrics''"] p4
  have c4: "upgrade demo_env (demo_request ''/metrics'') 7 ''T0'' startup =
     emit [Log WARN ''WebSocket connection attempt to invalid path: /metrics'',
           SocketWrite 7 (''HTTP/1.1 404 Not Found'' @ CRLF @ CRLF), SocketDestroy 7] startup"
    by simp
  from upgrade_routed_by_path [where env = demo_env and request = "demo_request ''//''"
      and st = startup and socket = 7 and now = "''T0''" and message = "''Invalid URL''"] p5
  have c5: "upgrade demo_env (demo_request ''//'') 7 ''T0'' startup =
     emit [Log ERROR ''Error handling WebSocket upgrade: Invalid URL'',
           SocketWrite 7 (''HTTP/1.1 500 Internal Server Error'' @ CRLF @ CRLF),
           SocketDestroy 7] startup"
    by simp
  show ?thesis using p1 p2 p3 p4 p5 a1 a1b a2 h1 c1 c1b c1r c2 c3 c3r c4 c5 by blast
qed

section \<open>The liveness monitor\<close>


lemma heartbeat_loop_char:
  "distinct cs \<Longrightarrow>
   clients (heartbeat_loop cs st) =
     filter (\<lambda>c. \<not> (c \<in> set cs \<and> isAlive st c = Some False)) (clients st) \<and>
   isAlive (heartbeat_loop cs st) = (\<lambda>c. if c \<in> set cs then Some False else isAlive st c) \<and>
   trace (heartbeat_loop cs st) =
     trace st @ map (\<lambda>c. if isAlive st c = Some False then Terminate c else Ping c) cs \<and>
   listeners (heartbeat_loop cs st) = listeners st \<and>
   vehicleConnections (heartbeat_loop cs st) = vehicleConnections st"
proof (induction cs arbitrary: st)
  case Nil
  show ?case by simp
next
  case (Cons x xs)
  from Cons.prems have d: "distinct xs" and x: "x \<notin> set xs" by simp_all
  show ?case
  proof (cases "isAlive st x = Some False")
    case True
    let ?st1 = "(ws_terminate x st)\<lparr>clients := set_delete x (clients (ws_terminate x st))\<rparr>"
    have f: "isAlive ?st1 = isAlive st" "clients ?st1 = filter (\<lambda>y. y \<noteq> x) (clients st)"
      "trace ?st1 = trace st @ [Terminate x]" "listeners ?st1 = listeners st"
      "vehicleConnections ?st1 = vehicleConnections st"
      by (simp_all add: ws_terminate_def set_delete_def)
    have h: "heartbeat_loop (x # xs) st = heartbeat_loop xs ?st1"
      using True by (simp add: Let_def)
    show ?thesis
      unfolding h using Cons.IH [OF d, of ?st1] True x
      by (auto simp: f fun_eq_iff intro!: filter_cong)
  next
    case False
    let ?st1 = "emit [Ping x] (st\<lparr>isAlive := (isAlive st)(x := Some False)\<rparr>)"
    have f: "isAlive ?st1 = (isAlive st)(x := Some False)" "clients ?st1 = clients st"
      "trace ?st1 = trace st @ [Ping x]" "listeners ?st1 = listeners st"
      "vehicleConnections ?st1 = vehicleConnections st"
      by simp_all
    have h: "heartbeat_loop (x # xs) st = heartbeat_loop xs ?st1"
      using False by (simp add: Let_def)
    show ?thesis
      unfolding h using Cons.IH [OF d, of ?st1] False x
      by (auto simp: f fun_eq_iff intro!: filter_cong)
  qed
qed

lemma heartbeat_clients:
  "distinct (clients st) \<Longrightarrow>
   clients (heartbeat st) = filter (\<lambda>c. isAlive st c \<noteq> Some False) (clients st)"
  using heartbeat_loop_char [of "clients st" st]
  by (auto simp: heartbeat_def intro!: filter_cong)

lemma heartbeat_isAlive:
  "distinct (clients st) \<Longrightarrow>
   isAlive (heartbeat st) c = (if c \<in> set (clients st) then Some False else isAlive st c)"
  using heartbeat_loop_char [of "clients st" st] by (simp add: heartbeat_def)

lemma heartbeat_effects:
  "distinct (clients st) \<Longrightarrow>
   effects st (heartbeat st) =
     map (\<lambda>c. if isAlive st c = Some False then Terminate c else Ping c) (clients st)"
  using heartbeat_loop_char [of "clients st" st] by (simp add: heartbeat_def effects_def)

lemma distinct_set_add: "distinct xs \<Longrightarrow> distinct (set_add x xs)"
  by (simp add: set_add_def)

lemma distinct_set_delete: "distinct xs \<Longrightarrow> distinct (set_delete x xs)"
  by (simp add: set_delete_def)

lemma handleVehicleMessage_frame:
  "\<exists>es vc. handleVehicleMessage env socket data t_connect t_ack st =
      emit es (st\<lparr>vehicleConnections := vc\<rparr>)"
proof -
  have triv: "\<exists>es vc. emit xs st = (emit es st)\<lparr>vehicleConnections := vc\<rparr>" for xs
    by (rule exI [of _ xs], rule exI [of _ "vehicleConnections st"]) simp
  obtain l s where ls: "snd (decode_frame env data st) = emit [Log l s] st"
    using decode_frame_emit by blast
  show ?thesis
  proof (cases "PayloadType st")
    case False
    then show ?thesis by (simp add: handleVehicleMessage_def logger_def triv)
  next
    case True
    show ?thesis
    proof (cases "fst (decode_frame env data st)")
      case None
      with True ls show ?thesis
        by (simp add: handleVehicleMessage_def case_prod_beta triv)
    next
      case (Some m)
      show ?thesis
      proof (cases "without_valid_vin m")
        case invalid: True
        with True Some ls show ?thesis
          by (simp add: handleVehicleMessage_def case_prod_beta logger_def triv)
      next
        case valid: False
        from handleVehicleMessage_shape [OF True Some valid, of socket t_connect t_ack]
        show ?thesis by blast
      qed
    qed
  qed
qed

lemma vehicle_close_frame:
  "\<exists>es vc. vehicle_close env socket now st = emit es (st\<lparr>vehicleConnections := vc\<rparr>)"
proof -
  have triv: "\<exists>es vc. emit xs st = (emit es st)\<lparr>vehicleConnections := vc\<rparr>" for xs
    by (rule exI [of _ xs], rule exI [of _ "vehicleConnections st"]) simp
  show ?thesis
  proof (cases "find_vin (vehicleConnections st) socket")
    case None
    then show ?thesis by (simp add: vehicle_close_def logger_def triv)
  next
    case (Some v)
    show ?thesis
    proof (cases "v = []")
      case True
      with Some show ?thesis by (simp add: vehicle_close_def logger_def triv)
    next
      case False
      with Some have "vehicle_close env socket now st =
          emit (Log INFO (''Vehicle '' @ v @ '' disconnected'') #
                fanout env st (connectivity v ''DISCONNECTED'' now))
            (st\<lparr>vehicleConnections := map_delete (vehicleConnections st) v\<rparr>)"
        by (simp add: vehicle_close_def logger_def broadcastTelemetry_fanout Let_def)
      then show ?thesis by blast
    qed
  qed
qed

lemma upgrade_frame:
  "\<exists>es. upgrade env request socket now st = emit es st \<or>
        (\<exists>r a l. upgrade env request socket now st =
           (emit es st)\<lparr>clients := set_add socket (clients st),
                        listeners := (listeners st)(socket := l),
                        readyState := (readyState st)(socket := r),
                        isAlive := (isAlive st)(socket := None),
                        authData := (authData st)(socket := a)\<rparr>) \<or>
        (\<exists>r a l. upgrade env request socket now st =
           (emit es st)\<lparr>listeners := (listeners st)(socket := l),
                        readyState := (readyState st)(socket := r),
                        isAlive := (isAlive st)(socket := None),
                        authData := (authData st)(socket := a)\<rparr>)"
proof (cases "request_pathname env request")
  case (Inl msg)
  then show ?thesis by (simp add: upgrade_def) blast
next
  case (Inr path)
  consider (stream) "path = ''/stream''" | (root) "path = ''/''"
    | (other) "path \<noteq> ''/stream''" "path \<noteq> ''/''" by blast
  then show ?thesis
  proof cases
    case stream
    with Inr have p: "request_pathname env request = Inr ''/stream''" by simp
    let ?attempt = "Log DEBUG ''Client WebSocket connection attempt to /stream''"
    obtain logs where u: "upgrade env request socket now st =
       (case fst (authenticateWebSocketRequest env request st) of
          None \<Rightarrow>
            emit (?attempt # logs @
                  [Log WARN (''Client authentication failed, rejecting WebSocket connection from '' @
                     remoteAddress request),
                   SocketWrite socket (''HTTP/1.1 401 Unauthorized'' @ CRLF @ CRLF),
                   SocketDestroy socket]) st
        | Some auth \<Rightarrow>
            (case handshake request of
               Some status \<Rightarrow> emit (?attempt # logs @ [AbortHandshake socket status]) st
             | None \<Rightarrow>
                 (emit (?attempt # logs @
                        [Log INFO (''Client connected: '' @ remoteAddress request @
                           '', total clients: '' @
                           string_of_nat (length (set_add socket (clients st)))),
                         Stringify (welcome_message now),
                         Send socket (JSON_stringify env (welcome_message now))]) st)
                   \<lparr>clients := set_add socket (clients st),
                    listeners := (listeners st)(socket := Some (ClientListeners request)),
                    readyState := (readyState st)(socket := OPEN),
                    isAlive := (isAlive st)(socket := None),
                    authData := (authData st)(socket := Some auth)\<rparr>))"
      using upgrade_stream [OF p, of socket now st] by blast
    show ?thesis
    proof (cases "fst (authenticateWebSocketRequest env request st)")
      case None
      show ?thesis unfolding u None by (simp del: append.simps) blast
    next
      case (Some auth)
      show ?thesis
      proof (cases "handshake request")
        case refused: (Some status)
        show ?thesis unfolding u Some refused by (simp del: append.simps) blast
      next
        case None
        have "upgrade env request socket now st =
                 (emit (?attempt # logs @
                        [Log INFO (''Client connected: '' @ remoteAddress request @
                           '', total clients: '' @
                           string_of_nat (length (set_add socket (clients st)))),
                         Stringify (welcome_message now),
                         Send socket (JSON_stringify env (welcome_message now))]) st)
                   \<lparr>clients := set_add socket (clients st),
                    listeners := (listeners st)(socket := Some (ClientListeners request)),
                    readyState := (readyState st)(socket := OPEN),
                    isAlive := (isAlive st)(socket := None),
                    authData := (authData st)(socket := Some auth)\<rparr>"
          unfolding u Some None by simp
        then show ?thesis by blast
      qed
    qed
  next
    case root
    with Inr have p: "request_pathname env request = Inr ''/''" by simp
    show ?thesis
    proof (cases "handshake request")
      case (Some status)
      show ?thesis unfolding upgrade_root [OF p] Some by simp blast
    next
      case None
      have "upgrade env request socket now st =
            (emit [Log DEBUG ''Vehicle WebSocket connection attempt to /'',
                   Log INFO (''Vehicle connected from: '' @ remoteAddress request),
                   Log DEBUG ''No client certificate validation (mTLS not enabled)''] st)
              \<lparr>listeners := (listeners st)(socket := Some VehicleListeners),
               readyState := (readyState st)(socket := OPEN),
               isAlive := (isAlive st)(socket := None),
               authData := (authData st)(socket := None)\<rparr>"
        unfolding upgrade_root [OF p] None by simp
      then show ?thesis by blast
    qed
  next
    case other
    with Inr show ?thesis by (simp add: upgrade_def) blast
  qed
qed


lemma handleVehicleMessage_pool:
  "clients (handleVehicleMessage env socket data t_connect t_ack st) = clients st"
  "isAlive (handleVehicleMessage env socket data t_connect t_ack st) = isAlive st"
proof -
  obtain es vc where "handleVehicleMessage env socket data t_connect t_ack st =
      emit es (st\<lparr>vehicleConnections := vc\<rparr>)"
    using handleVehicleMessage_frame by blast
  then show "clients (handleVehicleMessage env socket data t_connect t_ack st) = clients st"
    "isAlive (handleVehicleMessage env socket data t_connect t_ack st) = isAlive st"
    by simp_all
qed

lemma vehicle_close_pool:
  "clients (vehicle_close env socket now st) = clients st"
  "isAlive (vehicle_close env socket now st) = isAlive st"
proof -
  obtain es vc where "vehicle_close env socket now st = emit es (st\<lparr>vehicleConnections := vc\<rparr>)"
    using vehicle_close_frame by blast
  then show "clients (vehicle_close env socket now st) = clients st"
    "isAlive (vehicle_close env socket now st) = isAlive st"
    by simp_all
qed

lemma upgrade_pool:
  "clients (upgrade env request socket now st) = clients st \<or>
   clients (upgrade env request socket now st) = set_add socket (clients st)"
  "isAlive (upgrade env request socket now st) = isAlive st \<or>
   isAlive (upgrade env request socket now st) = (isAlive st)(socket := None)"
  using upgrade_frame [of env request socket now st] by auto

lemma step_clients:
  "clients (step env st ev) = clients st \<or>
   (\<exists>r s t. ev = Upgrade r s t \<and> clients (step env st ev) = set_add s (clients st)) \<or>
   (\<exists>s. clients (step env st ev) = set_delete s (clients st)) \<or>
   (ev = Tick \<and> clients (step env st ev) = clients (heartbeat st))"
proof (cases ev)
  case (Upgrade r s t)
  then show ?thesis using upgrade_pool(1) [of env r s t st] by auto
next
  case (Message s d t1 t2)
  then show ?thesis
    by (simp add: handleVehicleMessage_pool split: option.splits listeners.splits)
next
  case (Close s t)
  then show ?thesis
    by (auto simp: vehicle_close_pool client_close_def logger_def Let_def
          split: option.splits listeners.splits)
next
  case (Error s msg)
  then show ?thesis
    by (auto simp: vehicle_error_def client_error_def logger_def Let_def
          split: option.splits listeners.splits)
next
  case (Pong s)
  then show ?thesis by (simp add: client_pong_def split: option.splits listeners.splits)
next
  case (Closing s)
  then show ?thesis by simp
next
  case Tick
  then show ?thesis by simp
next
  case ProtoLoaded
  then show ?thesis by (simp add: protoLoaded_def logger_def)
qed

lemma step_isAlive:
  "ev \<noteq> Tick \<Longrightarrow>
   isAlive (step env st ev) = isAlive st \<or>
   (\<exists>s. ev = Pong s \<and> isAlive (step env st ev) = (isAlive st)(s := Some True)) \<or>
   (\<exists>r s t. ev = Upgrade r s t \<and> isAlive (step env st ev) = (isAlive st)(s := None))"
proof (cases ev)
  case (Upgrade r s t)
  then show ?thesis using upgrade_pool(2) [of env r s t st] by auto
next
  case (Message s d t1 t2)
  then show ?thesis
    by (simp add: handleVehicleMessage_pool split: option.splits listeners.splits)
next
  case (Close s t)
  then show ?thesis
    by (auto simp: vehicle_close_pool client_close_def logger_def Let_def
          split: option.splits listeners.splits)
next
  case (Error s msg)
  then show ?thesis
    by (auto simp: vehicle_error_def client_error_def logger_def Let_def
          split: option.splits listeners.splits)
next
  case (Pong s)
  then show ?thesis by (simp add: client_pong_def split: option.splits listeners.splits)
next
  case (Closing s)
  then show ?thesis by simp
next
  case ProtoLoaded
  then show ?thesis by (simp add: protoLoaded_def logger_def)
qed simp

lemma step_distinct: "distinct (clients st) \<Longrightarrow> distinct (clients (step env st ev))"
  using step_clients [of env st ev]
  by (auto simp: distinct_set_add distinct_set_delete heartbeat_clients)

lemma run_distinct: "distinct (clients st) \<Longrightarrow> distinct (clients (run env st evs))"
  by (induction evs arbitrary: st) (simp_all add: step_distinct)

lemma run_append: "run env st (evs @ evs') = run env (run env st evs) evs'"
  by (induction evs arbitrary: st) simp_all

lemma awaiting_step:
  assumes "distinct (clients st)"
    and "c \<in> set (clients st) \<longrightarrow> isAlive st c = Some False"
    and "ev \<noteq> Pong c" and "\<forall>r t. ev \<noteq> Upgrade r c t"
  shows "c \<in> set (clients (step env st ev)) \<longrightarrow> isAlive (step env st ev) c = Some False"
proof (cases "ev = Tick")
  case True
  with assms(1,2) show ?thesis by (auto simp: heartbeat_clients)
next
  case False
  have sub: "c \<in> set (clients (step env st ev)) \<Longrightarrow> c \<in> set (clients st)"
    using step_clients [of env st ev] assms(4) False
    by (auto simp: set_delete_def)
  have same: "isAlive (step env st ev) c = isAlive st c"
    using step_isAlive [OF False, of env st] assms(3,4) by (auto split: if_splits)
  from sub same assms(2) show ?thesis by auto
qed

lemma awaiting_run:
  assumes "distinct (clients st)"
    and "c \<in> set (clients st) \<longrightarrow> isAlive st c = Some False"
    and "\<forall>ev\<in>set evs. ev \<noteq> Pong c \<and> (\<forall>r t. ev \<noteq> Upgrade r c t)"
  shows "c \<in> set (clients (run env st evs)) \<longrightarrow> isAlive (run env st evs) c = Some False"
  using assms
proof (induction evs arbitrary: st)
  case Nil
  then show ?case by simp
next
  case (Cons ev evs)
  have "c \<in> set (clients (step env st ev)) \<longrightarrow> isAlive (step env st ev) c = Some False"
    using Cons.prems by (intro awaiting_step) auto
  moreover have "distinct (clients (step env st ev))"
    using Cons.prems(1) by (rule step_distinct)
  ultimately show ?case using Cons.IH [of "step env st ev"] Cons.prems(3) by simp
qed

lemma alive_step:
  assumes "isAlive st c \<noteq> Some False" and "ev \<noteq> Tick"
  shows "isAlive (step env st ev) c \<noteq> Some False"
  using step_isAlive [OF assms(2), of env st] assms(1) by (auto split: if_splits)

lemma alive_run:
  assumes "isAlive st c \<noteq> Some False" and "Tick \<notin> set evs"
  shows "isAlive (run env st evs) c \<noteq> Some False"
  using assms
proof (induction evs arbitrary: st)
  case Nil
  then show ?case by simp
next
  case (Cons ev evs)
  from Cons.prems have "isAlive (step env st ev) c \<noteq> Some False"
    by (intro alive_step) auto
  with Cons.IH [of "step env st ev"] Cons.prems(2) show ?case by simp
qed


lemma upgrade_admits:
  assumes "request_pathname env request = Inr ''/stream''"
    and "fst (authenticateWebSocketRequest env request st) \<noteq> None"
    and "handshake request = None"
  shows "clients (upgrade env request socket now st) = set_add socket (clients st) \<and>
         isAlive (upgrade env request socket now st) = (isAlive st)(socket := None)"
proof -
  from assms(2) obtain auth where a: "fst (authenticateWebSocketRequest env request st) = Some auth"
    by blast
  from upgrade_stream [OF assms(1), of socket now st] show ?thesis
    unfolding a assms(3) by auto
qed

text \<open>
  C7. Admission (a request to \<^verbatim>\<open>/stream\<close> that passes the token gate and whose handshake
  the library completes) puts the socket in the pool in the state alive (the new socket
  has no \<^verbatim>\<open>isAlive\<close> property, which the heartbeat reads as alive). On a
  tick, for a pool that is a set: the pool keeps exactly its alive members; every member
  that was awaiting an acknowledgment is terminated, removed and not probed; every member
  that was alive stays, is now awaiting an acknowledgment and is sent a ping. A pong on a
  socket with the subscriber listeners makes it alive again, whenever it comes. So after
  two ticks with no pong from a subscriber between them (and whatever else happens
  between them, the subscriber not being upgraded anew) it is not in the pool; and a
  subscriber that sent a pong since the last tick, and is in the pool when the next tick
  comes, is still in the pool after it.
\<close>

theorem liveness_machine:
  "(request_pathname env request = Inr ''/stream'' \<and>
    fst (authenticateWebSocketRequest env request st) \<noteq> None \<and> handshake request = None \<longrightarrow>
      socket \<in> set (clients (upgrade env request socket now st)) \<and>
      liveness (upgrade env request socket now st) socket = ALIVE) \<and>
   (distinct (clients st) \<longrightarrow>
      clients (step env st Tick) = filter (\<lambda>c. liveness st c = ALIVE) (clients st) \<and>
      (\<forall>c\<in>set (clients st). liveness st c = AWAITING_ACK \<longrightarrow>
         c \<notin> set (clients (step env st Tick)) \<and>
         Terminate c \<in> set (effects st (step env st Tick)) \<and>
         Ping c \<notin> set (effects st (step env st Tick))) \<and>
      (\<forall>c\<in>set (clients st). liveness st c = ALIVE \<longrightarrow>
         c \<in> set (clients (step env st Tick)) \<and>
         liveness (step env st Tick) c = AWAITING_ACK \<and>
         Ping c \<in> set (effects st (step env st Tick)) \<and>
         Terminate c \<notin> set (effects st (step env st Tick)))) \<and>
   (listeners st c = Some (ClientListeners r) \<longrightarrow> liveness (step env st (Pong c)) c = ALIVE) \<and>
   (distinct (clients st) \<and> (\<forall>ev\<in>set evs. ev \<noteq> Pong c \<and> (\<forall>q t. ev \<noteq> Upgrade q c t)) \<longrightarrow>
      c \<notin> set (clients (run env st ([Tick] @ evs @ [Tick])))) \<and>
   (distinct (clients st) \<and> listeners st c = Some (ClientListeners r) \<and> Tick \<notin> set evs \<and>
    c \<in> set (clients (run env st ([Pong c] @ evs))) \<longrightarrow>
      c \<in> set (clients (run env st ([Pong c] @ evs @ [Tick]))))"
proof (intro conjI impI)
  assume "request_pathname env request = Inr ''/stream'' \<and>
    fst (authenticateWebSocketRequest env request st) \<noteq> None \<and> handshake request = None"
  then have a: "clients (upgrade env request socket now st) = set_add socket (clients st) \<and>
         isAlive (upgrade env request socket now st) = (isAlive st)(socket := None)"
    by (intro upgrade_admits) simp_all
  then show "socket \<in> set (clients (upgrade env request socket now st))" by simp
  from a show "liveness (upgrade env request socket now st) socket = ALIVE"
    by (simp add: liveness_def)
next
  assume d: "distinct (clients st)"
  show "clients (step env st Tick) = filter (\<lambda>c. liveness st c = ALIVE) (clients st)"
    using d by (auto simp: heartbeat_clients liveness_def intro!: filter_cong)
  show "\<forall>c\<in>set (clients st). liveness st c = AWAITING_ACK \<longrightarrow>
         c \<notin> set (clients (step env st Tick)) \<and>
         Terminate c \<in> set (effects st (step env st Tick)) \<and>
         Ping c \<notin> set (effects st (step env st Tick))"
    using d by (auto simp: heartbeat_clients heartbeat_effects liveness_def split: if_splits)
  show "\<forall>c\<in>set (clients st). liveness st c = ALIVE \<longrightarrow>
         c \<in> set (clients (step env st Tick)) \<and>
         liveness (step env st Tick) c = AWAITING_ACK \<and>
         Ping c \<in> set (effects st (step env st Tick)) \<and>
         Terminate c \<notin> set (effects st (step env st Tick))"
    using d
    by (auto simp: heartbeat_clients heartbeat_effects heartbeat_isAlive liveness_def
          split: if_splits)
next
  assume "listeners st c = Some (ClientListeners r)"
  then show "liveness (step env st (Pong c)) c = ALIVE"
    by (simp add: client_pong_def liveness_def)
next
  assume a: "distinct (clients st) \<and>
    (\<forall>ev\<in>set evs. ev \<noteq> Pong c \<and> (\<forall>q t. ev \<noteq> Upgrade q c t))"
  let ?st1 = "step env st Tick"
  let ?st2 = "run env ?st1 evs"
  have d1: "distinct (clients ?st1)" using a by (intro step_distinct) simp
  have i1: "c \<in> set (clients ?st1) \<longrightarrow> isAlive ?st1 c = Some False"
    using a by (auto simp: heartbeat_clients heartbeat_isAlive)
  have d2: "distinct (clients ?st2)" using d1 by (rule run_distinct)
  have i2: "c \<in> set (clients ?st2) \<longrightarrow> isAlive ?st2 c = Some False"
    using d1 i1 a by (intro awaiting_run) auto
  have "c \<notin> set (clients (step env ?st2 Tick))"
    using d2 i2 by (auto simp: heartbeat_clients)
  then show "c \<notin> set (clients (run env st ([Tick] @ evs @ [Tick])))"
    by (simp add: run_append)
next
  assume a: "distinct (clients st) \<and> listeners st c = Some (ClientListeners r) \<and>
    Tick \<notin> set evs \<and> c \<in> set (clients (run env st ([Pong c] @ evs)))"
  let ?st1 = "step env st (Pong c)"
  let ?st2 = "run env ?st1 evs"
  have d2: "distinct (clients ?st2)" using a by (intro run_distinct step_distinct) simp
  have "isAlive ?st1 c \<noteq> Some False" using a by (simp add: client_pong_def)
  then have i2: "isAlive ?st2 c \<noteq> Some False" using a by (intro alive_run) auto
  from a have m: "c \<in> set (clients ?st2)" by (simp del: step.simps)
  have "c \<in> set (clients (step env ?st2 Tick))"
    using d2 i2 m by (simp add: heartbeat_clients)
  then show "c \<in> set (clients (run env st ([Pong c] @ evs @ [Tick])))"
    by (simp add: run_append del: step.simps)
qed


theorem liveness_machine_witness:
  "request_pathname demo_env (demo_request ''/stream?token=good'') = Inr ''/stream'' \<and>
   fst (authenticateWebSocketRequest demo_env (demo_request ''/stream?token=good'') startup) \<noteq> None \<and>
   handshake (demo_request ''/stream?token=good'') = None \<and>
   liveness (upgrade demo_env (demo_request ''/stream?token=good'') 5 ''T0'' startup) 5 = ALIVE \<and>
   distinct (clients demo_probed) \<and> clients demo_probed = [5, 6] \<and>
   liveness demo_probed 5 = ALIVE \<and> liveness demo_probed 6 = AWAITING_ACK \<and>
   listeners demo_probed 6 = Some (ClientListeners (demo_request ''/stream?token=good'')) \<and>
   clients (step demo_env demo_probed Tick) = [5] \<and>
   Terminate 6 \<in> set (effects demo_probed (step demo_env demo_probed Tick)) \<and>
   Ping 5 \<in> set (effects demo_probed (step demo_env demo_probed Tick)) \<and>
   liveness (step demo_env demo_probed Tick) 5 = AWAITING_ACK \<and>
   liveness (step demo_env demo_probed (Pong 6)) 6 = ALIVE \<and>
   5 \<notin> set (clients (run demo_env demo_probed [Tick, Tick])) \<and>
   6 \<in> set (clients (run demo_env demo_probed [Pong 6])) \<and>
   6 \<in> set (clients (run demo_env demo_probed [Pong 6, Tick]))"
proof -
  have p: "request_pathname demo_env (demo_request ''/stream?token=good'') = Inr ''/stream''"
    by (simp add: request_pathname_def demo_request_def demo_env_def demo_URL_def base_url_def)
  have a: "fst (authenticateWebSocketRequest demo_env (demo_request ''/stream?token=good'') startup)
      \<noteq> None"
    by (simp add: authenticateWebSocketRequest_def extractToken_def verifyToken_def
          demo_request_def demo_env_def demo_URL_def demo_verify_def base_url_def Let_def)
  have hs: "handshake (demo_request ''/stream?token=good'') = None" by (simp add: demo_request_def)
  have c: "clients demo_probed = [5, 6]" by (simp add: demo_probed_def demo_state_def)
  have d: "distinct (clients demo_probed)" by (simp add: c)
  have l5: "liveness demo_probed 5 = ALIVE" by (simp add: liveness_def demo_probed_def)
  have l6: "liveness demo_probed 6 = AWAITING_ACK" by (simp add: liveness_def demo_probed_def)
  have li: "listeners demo_probed 6 = Some (ClientListeners (demo_request ''/stream?token=good''))"
    by (simp add: demo_probed_def demo_state_def)
  have m: "6 \<in> set (clients (run demo_env demo_probed ([Pong 6] @ [])))"
    by (simp add: li client_pong_def c)
  have e: "\<forall>ev\<in>set []. ev \<noteq> Pong 5 \<and> (\<forall>q t. ev \<noteq> Upgrade q 5 t)" by simp
  have n: "Tick \<notin> set []" by simp
  note t1 = liveness_machine [where env = demo_env and st = startup and socket = 5
      and request = "demo_request ''/stream?token=good''" and now = "''T0''"]
  note t5 = liveness_machine [where env = demo_env and st = demo_probed and c = 5 and evs = "[]"]
  note t6 = liveness_machine [where env = demo_env and st = demo_probed and c = 6 and evs = "[]"
      and r = "demo_request ''/stream?token=good''"]
  from t1 p a hs
  have r1: "liveness (upgrade demo_env (demo_request ''/stream?token=good'') 5 ''T0'' startup) 5 = ALIVE"
    by blast
  from t5 d have "clients (step demo_env demo_probed Tick) =
      filter (\<lambda>c. liveness demo_probed c = ALIVE) (clients demo_probed)" by blast
  then have r2: "clients (step demo_env demo_probed Tick) = [5]"
    unfolding c using l5 l6 by simp
  from t5 d have "\<forall>c\<in>set (clients demo_probed). liveness demo_probed c = AWAITING_ACK \<longrightarrow>
         c \<notin> set (clients (step demo_env demo_probed Tick)) \<and>
         Terminate c \<in> set (effects demo_probed (step demo_env demo_probed Tick)) \<and>
         Ping c \<notin> set (effects demo_probed (step demo_env demo_probed Tick))" by blast
  with c l6 have r3: "Terminate 6 \<in> set (effects demo_probed (step demo_env demo_probed Tick))"
    by simp
  from t5 d have "\<forall>c\<in>set (clients demo_probed). liveness demo_probed c = ALIVE \<longrightarrow>
         c \<in> set (clients (step demo_env demo_probed Tick)) \<and>
         liveness (step demo_env demo_probed Tick) c = AWAITING_ACK \<and>
         Ping c \<in> set (effects demo_probed (step demo_env demo_probed Tick)) \<and>
         Terminate c \<notin> set (effects demo_probed (step demo_env demo_probed Tick))" by blast
  with c l5 have r4: "Ping 5 \<in> set (effects demo_probed (step demo_env demo_probed Tick)) \<and>
      liveness (step demo_env demo_probed Tick) 5 = AWAITING_ACK"
    by simp
  from t6 li have r5: "liveness (step demo_env demo_probed (Pong 6)) 6 = ALIVE" by blast
  from t5 d e have "5 \<notin> set (clients (run demo_env demo_probed ([Tick] @ [] @ [Tick])))" by blast
  then have r6: "5 \<notin> set (clients (run demo_env demo_probed [Tick, Tick]))" by (simp del: run.simps)
  from t6 d li n m have "6 \<in> set (clients (run demo_env demo_probed ([Pong 6] @ [] @ [Tick])))"
    by blast
  then have r7: "6 \<in> set (clients (run demo_env demo_probed [Pong 6, Tick]))" by (simp del: run.simps)
  from m have m': "6 \<in> set (clients (run demo_env demo_probed [Pong 6]))" by (simp del: run.simps)
  show ?thesis using p a hs r1 d c l5 l6 li r2 r3 r4 r5 r6 r7 m' by blast
qed


section \<open>Frames before the schema is loaded, and the rules the code follows\<close>


lemma heartbeat_loop_PayloadType: "PayloadType (heartbeat_loop cs st) = PayloadType st"
  by (induction cs arbitrary: st) (simp_all add: Let_def ws_terminate_def)

lemma step_PayloadType:
  "ev \<noteq> ProtoLoaded \<Longrightarrow> PayloadType (step env st ev) = PayloadType st"
proof (cases ev)
  case (Upgrade r s t)
  then show ?thesis using upgrade_frame [of env r s t st] by auto
next
  case (Message s d t1 t2)
  obtain es vc where "handleVehicleMessage env s d t1 t2 st = emit es (st\<lparr>vehicleConnections := vc\<rparr>)"
    using handleVehicleMessage_frame by blast
  with Message show ?thesis by (simp split: option.splits listeners.splits)
next
  case (Close s t)
  obtain es vc where "vehicle_close env s t (st\<lparr>readyState := (readyState st)(s := CLOSED)\<rparr>) =
      emit es (st\<lparr>readyState := (readyState st)(s := CLOSED)\<rparr>\<lparr>vehicleConnections := vc\<rparr>)"
    using vehicle_close_frame by blast
  with Close show ?thesis
    by (simp add: client_close_def logger_def Let_def split: option.splits listeners.splits)
next
  case (Error s msg)
  then show ?thesis
    by (simp add: vehicle_error_def client_error_def logger_def Let_def
          split: option.splits listeners.splits)
next
  case (Pong s)
  then show ?thesis by (simp add: client_pong_def split: option.splits listeners.splits)
next
  case (Closing s)
  then show ?thesis by simp
next
  case Tick
  then show ?thesis by (simp add: heartbeat_def heartbeat_loop_PayloadType)
qed simp

lemma run_PayloadType:
  "ProtoLoaded \<notin> set evs \<Longrightarrow> PayloadType (run env st evs) = PayloadType st"
proof (induction evs arbitrary: st)
  case Nil
  show ?case by simp
next
  case (Cons ev evs)
  from Cons.prems have "ev \<noteq> ProtoLoaded" by auto
  then have "PayloadType (step env st ev) = PayloadType st" by (rule step_PayloadType)
  with Cons.IH [of "step env st ev"] Cons.prems show ?case by (simp del: step.simps)
qed

text \<open>
  C10. While \<^verbatim>\<open>PayloadType\<close> is not set, whatever frame a producer sends, a buffer or a
  text that is well-formed JSON alike, \<^verbatim>\<open>handleVehicleMessage\<close> only logs the error that
  the definitions are not loaded: the registry is not updated, nothing is serialised, and
  nothing is sent, neither to a subscriber nor, as an acknowledgment, to the producer.
  And \<^verbatim>\<open>PayloadType\<close> is not set in any state the process reaches from its start by events
  other than the end of the schema load.
\<close>

theorem frame_dropped_until_schema_loaded:
  "(\<not> PayloadType st \<longrightarrow>
      handleVehicleMessage env socket data t_connect t_ack st =
        emit [Log ERROR ''Protobuf definitions not loaded, cannot process message.''] st) \<and>
   (ProtoLoaded \<notin> set evs \<longrightarrow> \<not> PayloadType (run env startup evs))"
  by (simp add: handleVehicleMessage_def logger_def run_PayloadType startup_def)

theorem frame_dropped_until_schema_loaded_witness:
  "\<not> PayloadType startup \<and>
   JSON_parse demo_env frame_A = Inr payload_A \<and>
   handleVehicleMessage demo_env 1 (Text frame_A) ''T0'' ''T2'' startup =
     emit [Log ERROR ''Protobuf definitions not loaded, cannot process message.''] startup \<and>
   Payload_decode demo_env frame_V1 = Inr payload_V1 \<and>
   handleVehicleMessage demo_env 1 (Buffer frame_V1) ''T0'' ''T2'' startup =
     emit [Log ERROR ''Protobuf definitions not loaded, cannot process message.''] startup \<and>
   ProtoLoaded \<notin> set [Upgrade (demo_request ''/'') 1 ''T0''] \<and>
   \<not> PayloadType (run demo_env startup [Upgrade (demo_request ''/'') 1 ''T0''])"
proof -
  have n: "\<not> PayloadType startup" by (simp add: startup_def)
  have j: "JSON_parse demo_env frame_A = Inr payload_A" by (simp add: demo_env_def demo_parse_def)
  have e: "ProtoLoaded \<notin> set [Upgrade (demo_request ''/'') 1 ''T0'']" by simp
  note t = frame_dropped_until_schema_loaded [where st = startup and env = demo_env
      and socket = 1 and data = "Text frame_A" and t_connect = "''T0''" and t_ack = "''T2''"
      and evs = "[Upgrade (demo_request ''/'') 1 ''T0'']"]
  from t n have a: "handleVehicleMessage demo_env 1 (Text frame_A) ''T0'' ''T2'' startup =
     emit [Log ERROR ''Protobuf definitions not loaded, cannot process message.''] startup"
    by blast
  have k: "Payload_decode demo_env frame_V1 = Inr payload_V1"
    by (simp add: demo_env_def schema_decode_def default_of_def payload_V1_def)
  from frame_dropped_until_schema_loaded [where st = startup and env = demo_env
      and socket = 1 and data = "Buffer frame_V1" and t_connect = "''T0''" and t_ack = "''T2''"
      and evs = "[]"] n
  have a': "handleVehicleMessage demo_env 1 (Buffer frame_V1) ''T0'' ''T2'' startup =
     emit [Log ERROR ''Protobuf definitions not loaded, cannot process message.''] startup"
    by blast
  from t e have b: "\<not> PayloadType (run demo_env startup [Upgrade (demo_request ''/'') 1 ''T0''])"
    by blast
  show ?thesis using n j e a k a' b by blast
qed

text \<open>The rule the acknowledgment follows in the code: a frame that passes the guard is
  acknowledged exactly when its payload has a \<^verbatim>\<open>data\<close> property, whatever its value, and the
  socket is open.\<close>

lemma acknowledged_iff_data_key:
  assumes "PayloadType st" and "fst (decode_frame env data st) = Some m"
    and "\<not> without_valid_vin m" and "socket \<notin> set (clients st)"
  shows "received socket (effects st (handleVehicleMessage env socket data t_connect t_ack st)) =
     (if js_in ''data'' m \<and> readyState st socket = OPEN
      then [JSON_stringify env (ack m t_ack)] else [])"
proof -
  obtain d pre mid post where h:
    "handleVehicleMessage env socket data t_connect t_ack st =
       emit (d # (if map_has (vehicleConnections st) (vin_of m) then []
                  else Log INFO (''Vehicle identified: VIN='' @ vin_of m) #
                       fanout env st (connectivity (vin_of m) ''CONNECTED'' t_connect)) @
             pre @ mid @ post @
             (if isTelemetryDataMessage m \<and> readyState st socket = OPEN
              then [Stringify (ack m t_ack), Send socket (JSON_stringify env (ack m t_ack)),
                    Log DEBUG (''Sent acknowledgment to VIN='' @ vin_of m)]
              else []))
         (st\<lparr>vehicleConnections :=
               (if map_has (vehicleConnections st) (vin_of m) then vehicleConnections st
                else map_set (vehicleConnections st) (vin_of m) socket)\<rparr>)"
    and logs: "is_log d" "list_all is_log pre" "list_all is_log post"
    and mid: "mid = [] \<or> mid = fanout env st m"
    using handleVehicleMessage_shape [OF assms(1-3), of socket t_connect t_ack]
    by (auto simp del: in_and_isArray.simps)
  obtain l s where d: "d = Log l s" using logs(1) is_log_cases by blast
  from mid assms(4) have m: "received socket mid = []" by (auto simp: received_fanout_absent)
  show ?thesis
    using assms(4) m
    by (simp add: h d logs received_fanout_absent isTelemetryDataMessage_def)
qed

text \<open>The close of a producer whose identity is not empty, and of one that was never
  registered.\<close>

lemma vehicle_close_registered:
  assumes "find_vin (vehicleConnections st) socket = Some v" and "v \<noteq> []"
  shows "vehicle_close env socket now st =
     emit (Log INFO (''Vehicle '' @ v @ '' disconnected'') #
           fanout env st (connectivity v ''DISCONNECTED'' now))
       (st\<lparr>vehicleConnections := map_delete (vehicleConnections st) v\<rparr>)"
  using assms by (simp add: vehicle_close_def logger_def broadcastTelemetry_fanout Let_def)

lemma vehicle_close_unregistered:
  assumes "find_vin (vehicleConnections st) socket = None"
  shows "vehicle_close env socket now st = emit [Log INFO ''Unknown vehicle disconnected''] st"
  using assms by (simp add: vehicle_close_def logger_def)

lemma find_vin_None: "find_vin vc socket = None \<longleftrightarrow> socket \<notin> snd ` set vc"
  by (induction vc) (auto split: if_splits)


section \<open>The identity of relayed messages\<close>












section \<open>Where the code departs from its own description\<close>

text \<open>
  C9. The \<^verbatim>\<open>close\<close> listener tests the identity it found for truthiness. The empty buffer
  decodes to a payload whose identity is the default of the field, the empty string; it
  passes the guard and the producer on socket 1 is registered under the empty identity.
  When that socket closes, the scan finds the entry and the listener treats it as
  unknown: the entry stays in the registry and no DISCONNECTED message is broadcast,
  although subscriber 5 is connected and open.
\<close>

theorem empty_identity_never_unregistered:
  "Payload_decode demo_env [] = Inr payload_no_vin \<and>
   listeners demo_state 1 = Some VehicleListeners \<and>
   clients demo_state = [5, 6] \<and> readyState demo_state 5 = OPEN \<and>
   vehicleConnections (run demo_env demo_state [Message 1 (Buffer []) ''T0'' ''T2'']) =
     [([], 1)] \<and>
   find_vin (vehicleConnections (run demo_env demo_state [Message 1 (Buffer []) ''T0'' ''T2'']))
     1 = Some [] \<and>
   vehicleConnections
     (run demo_env demo_state [Message 1 (Buffer []) ''T0'' ''T2'', Close 1 ''T3'']) =
     [([], 1)] \<and>
   effects (run demo_env demo_state [Message 1 (Buffer []) ''T0'' ''T2''])
     (run demo_env demo_state [Message 1 (Buffer []) ''T0'' ''T2'', Close 1 ''T3'']) =
     [Log INFO ''Unknown vehicle disconnected'']"
  by code_simp

theorem empty_identity_never_unregistered_witness:
  "vehicleConnections
     (run demo_env demo_state [Message 1 (Buffer []) ''T0'' ''T2'', Close 1 ''T3'']) =
     [([], 1)]"
  using empty_identity_never_unregistered by blast

end
